theory Spec2Isabelle
  imports Main "HOL-Library.Sublist"
begin

section \<open>Effects: outcomes, promises and traces\<close>

text \<open>
  The services are asynchronous TypeScript methods. What an awaited call can do is made a
  value: it returns, it throws, or it never settles. A promise of the outside world
  carries the time in milliseconds after which it settles, so that a race against a timer
  can be decided. Every procedure of the model yields the list of events it caused, in
  order, together with its outcome.
\<close>

datatype error =
    ProviderFailure string
  | UploadTimeout nat
  | SendGridNotConfigured
  | SendGridApiFailed nat
  | GmailNotConfigured
  | AllGmailConfigsFailed
  | CreateFailed error

datatype 'a outcome = Returned 'a | Threw error | Pending

datatype 'a promise = Resolves nat 'a | Rejects nat error | Never

record quotation_entity =
  e_userId :: string
  e_referenceImages :: "string list"
  e_eventDate :: string
  e_endDate :: string
  e_status :: string
  e_isDeleted :: bool

datatype event =
    Invoke string
  | NewId string
  | LogRecord string "string option"
  | ResendSend
  | SendGridPost
  | SendGridReadBody
  | SmtpVerify nat
  | SmtpSendMail nat
  | SmtpOnlySend
  | SupabaseUpload nat string
  | S3Upload nat
  | Pause nat
  | RepoSave quotation_entity

type_synonym 'a proc = "event list \<times> 'a outcome"

definition emit :: "event list \<Rightarrow> 'a proc \<Rightarrow> 'a proc" where
  "emit evs p = (evs @ fst p, snd p)"

definition bind_proc :: "'a proc \<Rightarrow> ('a \<Rightarrow> 'b proc) \<Rightarrow> 'b proc" where
  "bind_proc p f =
     (case snd p of
        Returned v \<Rightarrow> emit (fst p) (f v)
      | Threw e \<Rightarrow> (fst p, Threw e)
      | Pending \<Rightarrow> (fst p, Pending))"

definition try_catch :: "'a proc \<Rightarrow> (error \<Rightarrow> 'a proc) \<Rightarrow> 'a proc" where
  "try_catch p h =
     (case snd p of
        Threw e \<Rightarrow> emit (fst p) (h e)
      | _ \<Rightarrow> p)"

definition await :: "event \<Rightarrow> 'a promise \<Rightarrow> 'a proc" where
  "await ev pr =
     (case pr of
        Resolves t v \<Rightarrow> ([ev], Returned v)
      | Rejects t e \<Rightarrow> ([ev], Threw e)
      | Never \<Rightarrow> ([ev], Pending))"

section \<open>JavaScript truthiness of optional strings\<close>

text \<open>
  \<open>process.env.X\<close> and \<open>configService.get(k)\<close> give a string or \<open>undefined\<close>;
  \<open>undefined\<close> and the empty string are falsy, and \<open>a || b\<close> is \<open>a\<close> when \<open>a\<close>
  is truthy and \<open>b\<close> otherwise.
\<close>

fun truthy :: "string option \<Rightarrow> bool" where
  "truthy None = False"
| "truthy (Some s) = (s \<noteq> [])"

definition js_or :: "string option \<Rightarrow> string option \<Rightarrow> string option" where
  "js_or a b = (if truthy a then a else b)"

section \<open>The world the services run in\<close>

record resend_reply =
  reply_error :: "string option"

record http_response =
  resp_ok :: bool
  resp_status :: nat
  resp_text :: "string promise"

record aws_config =
  bucketName :: "string option"
  bucketFolderName :: "string option"

record saved_entity =
  s_referenceImages :: "string list option"
  s_referenceimages :: "string list option"

text \<open>
  The world holds what the code reads from its environment and what the remote services
  answer. \<open>stamp\<close> is the \<open>Date.now()\<close> and \<open>Math.random()\<close> part of the
  identifier built inside the named service. \<open>SmtpOnlyEmailService\<close> is injected into
  \<open>RobustEmailService\<close> and its class is not among the sources, so the promise its
  \<open>sendEmail\<close> returns is a field of the world, like the replies of the remote
  providers. An upload is keyed by the position of the image in the request and, for
  Supabase, by the bucket; the reply of Supabase is the \<open>publicUrl\<close> of the resolved
  object and the reply of S3 is \<open>response?.Location\<close>.
\<close>

record world =
  env :: "string \<Rightarrow> string option"
  config :: "string \<Rightarrow> string option"
  stamp :: "string \<Rightarrow> string"
  resend_send :: "resend_reply promise"
  sendgrid_fetch :: "http_response promise"
  smtp_verify :: "nat \<Rightarrow> unit promise"
  smtp_sendMail :: "nat \<Rightarrow> unit promise"
  smtp_only_sendEmail :: "bool promise"
  aws :: "aws_config option"
  supabase_upload :: "nat \<Rightarrow> string \<Rightarrow> string option promise"
  s3_upload :: "nat \<Rightarrow> string option promise"
  repo_save :: "quotation_entity \<Rightarrow> saved_entity promise"

text \<open>
  Node's \<open>console.log\<close> does not raise (the global console ignores errors of its
  streams), and neither do \<open>JSON.stringify\<close> on a record of strings, \<open>Date\<close> or
  \<open>Math.random\<close>. A \<open>catch\<close> block that guards only such calls therefore has no
  case of its own in the model; every \<open>throw\<close> statement and every rejected or
  unsettled promise has one. Of the console output, the lines that record an email (the
  JSON record of a logging service, the banner of \<open>tryConsoleLog\<close>) are events.
\<close>

section \<open>ResendEmailService\<close>

record resend_service =
  resendClient :: "string option"

definition ResendEmailService_new :: "world \<Rightarrow> resend_service" where
  "ResendEmailService_new w =
     (let apiKey = js_or (env w ''RESEND_API_KEY'') (config w ''resend.apiKey'')
      in \<lparr> resendClient = (if truthy apiKey then apiKey else None) \<rparr>)"

definition logEmailFallback :: "world \<Rightarrow> string \<Rightarrow> string \<Rightarrow> string \<Rightarrow> bool proc" where
  "logEmailFallback w to subject body =
     (let ident = ''resend_fallback_'' @ stamp w ''RESEND_FALLBACK''
      in ([NewId ident, LogRecord ''RESEND_FALLBACK'' (Some ident)], Returned True))"

definition ResendEmailService_sendEmail ::
  "world \<Rightarrow> resend_service \<Rightarrow> string \<Rightarrow> string \<Rightarrow> string \<Rightarrow> bool proc" where
  "ResendEmailService_sendEmail w svc to subject body =
     try_catch
       (let resendApiKey = js_or (env w ''RESEND_API_KEY'') (config w ''resend.apiKey'') in
        if \<not> truthy resendApiKey \<or> resendClient svc = None
        then logEmailFallback w to subject body
        else bind_proc (await ResendSend (resend_send w))
               (\<lambda>r. if truthy (reply_error r)
                     then logEmailFallback w to subject body
                     else ([], Returned True)))
       (\<lambda>e. logEmailFallback w to subject body)"

section \<open>The logging services\<close>

definition RailwayDirectEmailService_sendEmail ::
  "world \<Rightarrow> string \<Rightarrow> string \<Rightarrow> string \<Rightarrow> bool proc" where
  "RailwayDirectEmailService_sendEmail w to subject body =
     (let ident = ''railway_direct_'' @ stamp w ''RAILWAY_DIRECT''
      in ([NewId ident, LogRecord ''RAILWAY_DIRECT'' (Some ident)], Returned True))"

definition RailwayEmailService_sendEmail ::
  "world \<Rightarrow> string \<Rightarrow> string \<Rightarrow> string \<Rightarrow> bool proc" where
  "RailwayEmailService_sendEmail w to subject body =
     (let ident = ''railway_email_'' @ stamp w ''RAILWAY_WEBHOOK''
      in ([NewId ident, LogRecord ''RAILWAY_WEBHOOK'' (Some ident)], Returned True))"

definition sendEmailViaWebhook ::
  "world \<Rightarrow> string \<Rightarrow> string \<Rightarrow> string \<Rightarrow> bool proc" where
  "sendEmailViaWebhook w to subject body =
     (let ident = ''email_'' @ stamp w ''WEBHOOK''
      in ([NewId ident, LogRecord ''WEBHOOK'' (Some ident)], Returned True))"

section \<open>RobustEmailService: the strategies\<close>

text \<open>
  Each \<open>try...\<close> method wraps its body in \<open>try { ... } catch (error) { throw error; }\<close>.
  The event \<open>Invoke\<close> marks the moment the method is entered. The methods
  \<open>trySendGrid\<close> and \<open>tryHttpEmail\<close> are not in the array of strategies and are
  left out.
\<close>

definition rethrow :: "error \<Rightarrow> 'a proc" where
  "rethrow e = ([], Threw e)"

definition tryResend ::
  "world \<Rightarrow> resend_service \<Rightarrow> string \<Rightarrow> string \<Rightarrow> string \<Rightarrow> bool proc" where
  "tryResend w svc to subject body =
     emit [Invoke ''tryResend'']
       (try_catch (ResendEmailService_sendEmail w svc to subject body) rethrow)"

definition trySendGridAPI :: "world \<Rightarrow> string \<Rightarrow> string \<Rightarrow> string \<Rightarrow> bool proc" where
  "trySendGridAPI w to subject body =
     emit [Invoke ''trySendGridAPI'']
       (try_catch
          (let sendGridApiKey = js_or (env w ''SENDGRID_API_KEY'') (config w ''sendGrid.apiKey'');
               fromEmail = js_or (env w ''SENDGRID_FROM_EMAIL'') (config w ''sendGrid.fromEmail'')
           in if \<not> truthy sendGridApiKey \<or> \<not> truthy fromEmail
              then ([], Threw SendGridNotConfigured)
              else bind_proc (await SendGridPost (sendgrid_fetch w))
                     (\<lambda>response.
                        if resp_ok response then ([], Returned True)
                        else bind_proc (await SendGridReadBody (resp_text response))
                               (\<lambda>errorText.
                                  ([], Threw (SendGridApiFailed (resp_status response))))))
          rethrow)"

fun gmail_configs_loop :: "world \<Rightarrow> nat list \<Rightarrow> bool proc" where
  "gmail_configs_loop w [] = ([], Threw AllGmailConfigsFailed)"
| "gmail_configs_loop w (port # ports) =
     (case await (SmtpVerify port) (smtp_verify w port) of
        (tr, Pending) \<Rightarrow> (tr, Pending)
      | (tr, Threw configError) \<Rightarrow> emit tr (gmail_configs_loop w ports)
      | (tr, Returned _) \<Rightarrow>
          (case await (SmtpSendMail port) (smtp_sendMail w port) of
             (tr', Pending) \<Rightarrow> (tr @ tr', Pending)
           | (tr', Threw configError) \<Rightarrow> emit (tr @ tr') (gmail_configs_loop w ports)
           | (tr', Returned info) \<Rightarrow> (tr @ tr', Returned True)))"

definition tryGmailSMTP :: "world \<Rightarrow> string \<Rightarrow> string \<Rightarrow> string \<Rightarrow> bool proc" where
  "tryGmailSMTP w to subject body =
     emit [Invoke ''tryGmailSMTP'']
       (try_catch
          (let smtpUser = js_or (env w ''SMTP_USER'') (config w ''email.SMTP_USER'');
               smtpPass = js_or (env w ''SMTP_PASS'') (config w ''email.SMTP_PASS'')
           in if \<not> truthy smtpUser \<or> \<not> truthy smtpPass
              then ([], Threw GmailNotConfigured)
              else gmail_configs_loop w [587, 465, 2525])
          rethrow)"

definition trySmtpOnly :: "world \<Rightarrow> string \<Rightarrow> string \<Rightarrow> string \<Rightarrow> bool proc" where
  "trySmtpOnly w to subject body =
     emit [Invoke ''trySmtpOnly'']
       (try_catch (await SmtpOnlySend (smtp_only_sendEmail w)) rethrow)"

definition tryRailwayDirect :: "world \<Rightarrow> string \<Rightarrow> string \<Rightarrow> string \<Rightarrow> bool proc" where
  "tryRailwayDirect w to subject body =
     emit [Invoke ''tryRailwayDirect'']
       (try_catch (RailwayDirectEmailService_sendEmail w to subject body) rethrow)"

definition tryRailwayEmail :: "world \<Rightarrow> string \<Rightarrow> string \<Rightarrow> string \<Rightarrow> bool proc" where
  "tryRailwayEmail w to subject body =
     emit [Invoke ''tryRailwayEmail'']
       (try_catch (RailwayEmailService_sendEmail w to subject body) rethrow)"

definition tryWebhook :: "world \<Rightarrow> string \<Rightarrow> string \<Rightarrow> string \<Rightarrow> bool proc" where
  "tryWebhook w to subject body =
     emit [Invoke ''tryWebhook'']
       (try_catch (sendEmailViaWebhook w to subject body) rethrow)"

definition tryConsoleLog :: "world \<Rightarrow> string \<Rightarrow> string \<Rightarrow> string \<Rightarrow> bool proc" where
  "tryConsoleLog w to subject body =
     emit [Invoke ''tryConsoleLog'']
       (try_catch ([LogRecord ''CONSOLE'' None], Returned True) rethrow)"

section \<open>RobustEmailService.sendEmail: the chain executor\<close>

text \<open>
  The \<open>for\<close> loop over the array of strategies: a strategy that returns a truthy value
  ends the loop with \<open>true\<close>, one that returns \<open>false\<close> or throws lets the loop go on,
  and after the last one the method returns \<open>false\<close>. An awaited strategy that never
  settles leaves the method pending.
\<close>

fun strategies_loop :: "bool proc list \<Rightarrow> bool proc" where
  "strategies_loop [] = ([], Returned False)"
| "strategies_loop (s # ss) =
     (case snd s of
        Returned success \<Rightarrow>
          (if success then (fst s, Returned True) else emit (fst s) (strategies_loop ss))
      | Threw e \<Rightarrow> emit (fst s) (strategies_loop ss)
      | Pending \<Rightarrow> (fst s, Pending))"

definition strategies ::
  "world \<Rightarrow> resend_service \<Rightarrow> string \<Rightarrow> string \<Rightarrow> string \<Rightarrow> bool proc list" where
  "strategies w svc to subject body =
     [ tryResend w svc to subject body,
       trySendGridAPI w to subject body,
       tryGmailSMTP w to subject body,
       trySmtpOnly w to subject body,
       tryRailwayDirect w to subject body,
       tryRailwayEmail w to subject body,
       tryWebhook w to subject body,
       tryConsoleLog w to subject body ]"

definition sendEmail ::
  "world \<Rightarrow> resend_service \<Rightarrow> string \<Rightarrow> string \<Rightarrow> string \<Rightarrow> bool proc" where
  "sendEmail w svc to subject body = strategies_loop (strategies w svc to subject body)"

definition strategy_order :: "string list" where
  "strategy_order =
     [''tryResend'', ''trySendGridAPI'', ''tryGmailSMTP'', ''trySmtpOnly'',
      ''tryRailwayDirect'', ''tryRailwayEmail'', ''tryWebhook'', ''tryConsoleLog'']"

fun invoked :: "event list \<Rightarrow> string list" where
  "invoked [] = []"
| "invoked (Invoke s # evs) = s # invoked evs"
| "invoked (_ # evs) = invoked evs"

section \<open>QuotationRequestService: the upload of reference images\<close>

text \<open>
  \<open>uploadWithTimeout\<close> races the upload against a timer that rejects after
  \<open>timeoutMs\<close>. The upload was started before the timer was set and stands first in
  the race, so it wins when it settles no later than the timer fires.
\<close>

definition uploadWithTimeout :: "'a promise \<Rightarrow> nat \<Rightarrow> 'a promise" where
  "uploadWithTimeout uploadPromise timeoutMs =
     (case uploadPromise of
        Resolves t v \<Rightarrow>
          (if t \<le> timeoutMs then Resolves t v else Rejects timeoutMs (UploadTimeout timeoutMs))
      | Rejects t e \<Rightarrow>
          (if t \<le> timeoutMs then Rejects t e else Rejects timeoutMs (UploadTimeout timeoutMs))
      | Never \<Rightarrow> Rejects timeoutMs (UploadTimeout timeoutMs))"

text \<open>
  The data URL test \<open>/^data:image\/(png|jpeg|jpg);base64,(.+)$/\<close>: the alternatives
  are tried in their order, and \<open>.\<close> matches any character but a line terminator.
  Strings are lists of 8-bit characters here, so the line terminators are line feed and
  carriage return, and the white space that \<open>trim\<close> removes is the ASCII white space
  and the no-break space; the separators and spaces of Unicode beyond 8 bits are not
  represented.
\<close>

fun strip_prefix :: "string \<Rightarrow> string \<Rightarrow> string option" where
  "strip_prefix [] s = Some s"
| "strip_prefix (p # ps) [] = None"
| "strip_prefix (p # ps) (c # cs) = (if p = c then strip_prefix ps cs else None)"

definition line_terminator :: "char \<Rightarrow> bool" where
  "line_terminator c = (c = CHR 0x0A \<or> c = CHR 0x0D)"

fun match_ext :: "string list \<Rightarrow> string \<Rightarrow> (string \<times> string) option" where
  "match_ext [] s = None"
| "match_ext (ext # exts) s =
     (case strip_prefix (ext @ '';base64,'') s of
        None \<Rightarrow> match_ext exts s
      | Some base64Data \<Rightarrow>
          (if base64Data \<noteq> [] \<and> list_all (\<lambda>c. \<not> line_terminator c) base64Data
           then Some (ext, base64Data)
           else match_ext exts s))"

definition match_data_url :: "string \<Rightarrow> (string \<times> string) option" where
  "match_data_url base64Image =
     (case strip_prefix ''data:image/'' base64Image of
        None \<Rightarrow> None
      | Some rest \<Rightarrow> match_ext [''png'', ''jpeg'', ''jpg''] rest)"

definition is_space :: "char \<Rightarrow> bool" where
  "is_space c =
     (c \<in> set [CHR '' '', CHR 0x09, CHR 0x0A, CHR 0x0B, CHR 0x0C, CHR 0x0D, CHR 0xA0])"

definition trim :: "string \<Rightarrow> string" where
  "trim s = rev (dropWhile is_space (rev (dropWhile is_space s)))"

definition hasAwsConfig :: "world \<Rightarrow> bool" where
  "hasAwsConfig w =
     (case aws w of
        None \<Rightarrow> False
      | Some awsConfig \<Rightarrow> truthy (bucketName awsConfig) \<and> truthy (bucketFolderName awsConfig))"

definition url_or_empty :: "string option \<Rightarrow> string" where
  "url_or_empty u = (case u of None \<Rightarrow> [] | Some s \<Rightarrow> s)"

text \<open>
  The loop over the Supabase buckets for the image at position \<open>i\<close>. It yields
  \<open>imageUrl\<close> and \<open>uploadSuccess\<close> as they stand when the loop is left. The
  request sent with an upload (the decoded buffer, the content type, the file name built
  from the clock and a random number) is not represented: the world gives the reply by
  the position of the image and the bucket.
\<close>

fun supabase_buckets_loop :: "world \<Rightarrow> nat \<Rightarrow> string list \<Rightarrow> (string \<times> bool) proc" where
  "supabase_buckets_loop w i [] = ([], Returned ([], False))"
| "supabase_buckets_loop w i (bucket # buckets) =
     (case await (SupabaseUpload i bucket)
             (uploadWithTimeout (supabase_upload w i bucket) 30000) of
        (tr, Returned publicUrl) \<Rightarrow>
          (if truthy publicUrl then (tr, Returned (url_or_empty publicUrl, True))
           else emit tr (supabase_buckets_loop w i buckets))
      | (tr, Threw supabaseError) \<Rightarrow> emit tr (supabase_buckets_loop w i buckets)
      | (tr, Pending) \<Rightarrow> (tr, Pending))"

definition s3_fallback :: "world \<Rightarrow> nat \<Rightarrow> string \<times> bool \<Rightarrow> (string \<times> bool) proc" where
  "s3_fallback w i st =
     (if \<not> snd st \<and> hasAwsConfig w
      then try_catch
             (bind_proc (await (S3Upload i) (s3_upload w i))
                (\<lambda>response.
                   (let imageUrl = url_or_empty response
                    in ([], Returned (imageUrl, (if imageUrl \<noteq> [] then True else snd st))))))
             (\<lambda>s3Error. ([], Returned st))
      else ([], Returned st))"

definition upload_image :: "world \<Rightarrow> nat \<Rightarrow> (string \<times> bool) proc" where
  "upload_image w i =
     (if env w ''NODE_ENV'' = Some ''local''
      then supabase_buckets_loop w i [''profiles'', ''uploads'']
      else bind_proc (supabase_buckets_loop w i [''profiles'', ''uploads''])
             (\<lambda>st. bind_proc (s3_fallback w i st)
                (\<lambda>st'. if \<not> snd st' then ([], Returned ([], snd st'))
                        else ([], Returned st'))))"

definition pause_after :: "nat \<Rightarrow> nat \<Rightarrow> event list" where
  "pause_after i n = (if i + 1 < n then [Pause 500] else [])"

definition keep_url :: "string \<Rightarrow> bool" where
  "keep_url url = (url \<noteq> [] \<and> trim url \<noteq> [])"

text \<open>
  The loop over the images: \<open>n\<close> is \<open>base64Images.length\<close>, \<open>i\<close> the position of
  the head of the remaining list and \<open>uploadedUrls\<close> the array built so far. An empty
  entry and an entry that is no data URL are skipped by \<open>continue\<close>, which also skips
  the delay at the end of the body.
\<close>

fun images_loop ::
  "world \<Rightarrow> nat \<Rightarrow> nat \<Rightarrow> string list \<Rightarrow> string list \<Rightarrow> string list proc" where
  "images_loop w n i [] uploadedUrls = ([], Returned uploadedUrls)"
| "images_loop w n i (base64Image # rest) uploadedUrls =
     (if base64Image = [] then images_loop w n (i + 1) rest uploadedUrls
      else
        (case match_data_url base64Image of
           None \<Rightarrow> images_loop w n (i + 1) rest uploadedUrls
         | Some matches \<Rightarrow>
             (case upload_image w i of
                (tr, Returned (imageUrl, uploadSuccess)) \<Rightarrow>
                  emit (tr @ pause_after i n)
                    (images_loop w n (i + 1) rest
                       (if keep_url imageUrl then uploadedUrls @ [imageUrl] else uploadedUrls))
              | (tr, Threw imageError) \<Rightarrow>
                  emit (tr @ pause_after i n) (images_loop w n (i + 1) rest uploadedUrls)
              | (tr, Pending) \<Rightarrow> (tr, Pending))))"

definition uploadBase64Images :: "world \<Rightarrow> string list \<Rightarrow> string list proc" where
  "uploadBase64Images w base64Images =
     try_catch
       (bind_proc (images_loop w (length base64Images) 0 base64Images [])
          (\<lambda>uploadedUrls. ([], Returned (filter keep_url uploadedUrls))))
       rethrow"

section \<open>QuotationRequestService.create\<close>

record create_dto =
  referenceImages :: "string list option"
  eventDate :: string
  endDate :: string

record create_response =
  r_referenceImages :: "string list"
  r_saved :: saved_entity

definition savedReferenceImages :: "saved_entity \<Rightarrow> string list \<Rightarrow> string list" where
  "savedReferenceImages savedEntity uploadedImageUrls =
     (case s_referenceImages savedEntity of
        Some urls \<Rightarrow> urls
      | None \<Rightarrow>
          (case s_referenceimages savedEntity of
             Some urls \<Rightarrow> urls
           | None \<Rightarrow> uploadedImageUrls))"

text \<open>
  \<open>create_after_upload\<close> is the body of \<open>create\<close> with the call
  \<open>this.uploadBase64Images(dto.referenceImages)\<close> as its last argument; \<open>create\<close>
  passes the method of this service.
\<close>

definition create_after_upload ::
  "world \<Rightarrow> create_dto \<Rightarrow> string \<Rightarrow> string list proc \<Rightarrow> create_response proc" where
  "create_after_upload w dto userId upload =
     try_catch
       (bind_proc
          (case referenceImages dto of
             None \<Rightarrow> ([], Returned [])
           | Some images \<Rightarrow>
               (if length images > 0
                then try_catch upload (\<lambda>uploadError. ([], Returned []))
                else ([], Returned [])))
          (\<lambda>uploadedImageUrls.
             (let entity = \<lparr> e_userId = userId, e_referenceImages = uploadedImageUrls,
                              e_eventDate = eventDate dto, e_endDate = endDate dto,
                              e_status = ''pending'', e_isDeleted = False \<rparr>
              in bind_proc (await (RepoSave entity) (repo_save w entity))
                   (\<lambda>savedEntity.
                      ([], Returned \<lparr> r_referenceImages =
                                         savedReferenceImages savedEntity uploadedImageUrls,
                                       r_saved = savedEntity \<rparr>)))))
       (\<lambda>error. ([], Threw (CreateFailed error)))"

definition create :: "world \<Rightarrow> create_dto \<Rightarrow> string \<Rightarrow> create_response proc" where
  "create w dto userId =
     create_after_upload w dto userId
       (uploadBase64Images w (case referenceImages dto of None \<Rightarrow> [] | Some images \<Rightarrow> images))"

section \<open>Reading traces and outcomes\<close>

text \<open>
  The functions of this section do not model code; they read off a trace or an outcome
  what the properties below speak about.
\<close>

fun pauses :: "event list \<Rightarrow> nat list" where
  "pauses [] = []"
| "pauses (Pause ms # evs) = ms # pauses evs"
| "pauses (_ # evs) = pauses evs"

fun ids :: "event list \<Rightarrow> string list" where
  "ids [] = []"
| "ids (NewId ident # evs) = ident # ids evs"
| "ids (_ # evs) = ids evs"

fun logged :: "event list \<Rightarrow> bool" where
  "logged [] = False"
| "logged (LogRecord service ident # evs) = True"
| "logged (_ # evs) = logged evs"

fun is_attempt :: "event \<Rightarrow> bool" where
  "is_attempt (SupabaseUpload i bucket) = True"
| "is_attempt (S3Upload i) = True"
| "is_attempt _ = False"

text \<open>
  A strategy that lets the loop of \<open>sendEmail\<close> go on: it returned \<open>false\<close> or threw.
\<close>

definition settled_without_success :: "bool proc \<Rightarrow> bool" where
  "settled_without_success s =
     (case snd s of Returned success \<Rightarrow> \<not> success | Threw e \<Rightarrow> True | Pending \<Rightarrow> False)"

text \<open>
  The conditions under which \<open>ResendEmailService.sendEmail\<close> takes one of its three
  ways into \<open>logEmailFallback\<close>: no key or no client, a rejected call, a reply with an
  \<open>error\<close>.
\<close>

definition resend_attempt_fails :: "world \<Rightarrow> resend_service \<Rightarrow> bool" where
  "resend_attempt_fails w svc =
     (\<not> truthy (js_or (env w ''RESEND_API_KEY'') (config w ''resend.apiKey''))
      \<or> resendClient svc = None
      \<or> (case resend_send w of
            Resolves t r \<Rightarrow> truthy (reply_error r)
          | Rejects t e \<Rightarrow> True
          | Never \<Rightarrow> False))"

text \<open>
  The guarded upload to one bucket succeeds when it resolves before the timer with a
  truthy \<open>publicUrl\<close>.
\<close>

definition bucket_succeeds :: "world \<Rightarrow> nat \<Rightarrow> string \<Rightarrow> bool" where
  "bucket_succeeds w i bucket =
     (case uploadWithTimeout (supabase_upload w i bucket) 30000 of
        Resolves t publicUrl \<Rightarrow> truthy publicUrl
      | Rejects t e \<Rightarrow> False
      | Never \<Rightarrow> False)"

text \<open>
  An entry of the request is processed when neither \<open>continue\<close> of the loop skips it;
  \<open>uploaded_url\<close> is what the body of the loop pushes for the entry at position \<open>i\<close>.
\<close>

definition processable :: "string \<Rightarrow> bool" where
  "processable base64Image = (base64Image \<noteq> [] \<and> match_data_url base64Image \<noteq> None)"

definition uploaded_url :: "world \<Rightarrow> nat \<Rightarrow> string \<Rightarrow> string option" where
  "uploaded_url w i base64Image =
     (if processable base64Image
      then (case snd (upload_image w i) of
              Returned st \<Rightarrow> (if keep_url (fst st) then Some (fst st) else None)
            | Threw e \<Rightarrow> None
            | Pending \<Rightarrow> None)
      else None)"

definition iteration_trace :: "world \<Rightarrow> nat \<Rightarrow> nat \<Rightarrow> string \<Rightarrow> event list" where
  "iteration_trace w n i base64Image =
     (if processable base64Image then fst (upload_image w i) @ pause_after i n else [])"

section \<open>The outcome vocabulary of the specification\<close>

text \<open>
  The specification speaks of a final status with three values and of a pause between
  consecutive attempts. These two definitions follow its words, for comparison with the
  code: the status of a successful run is \<open>LoggedOnly\<close> when the success is a log
  record, \<open>Delivered\<close> when the first adapter delivered and \<open>DeliveredViaFallback\<close>
  when a later one did; and a trace has a pause between consecutive attempts when no two
  upload attempts stand next to each other in it.
\<close>

datatype final_status = Delivered | DeliveredViaFallback | LoggedOnly

definition spec_final_status :: "event list \<Rightarrow> final_status" where
  "spec_final_status tr =
     (if logged tr then LoggedOnly
      else if length (invoked tr) \<le> 1 then Delivered
      else DeliveredViaFallback)"

fun spec_pause_between_attempts :: "event list \<Rightarrow> bool" where
  "spec_pause_between_attempts (a # b # evs) =
     (\<not> (is_attempt a \<and> is_attempt b) \<and> spec_pause_between_attempts (b # evs))"
| "spec_pause_between_attempts _ = True"

section \<open>Concrete worlds\<close>

text \<open>
  In \<open>quiet_world\<close> nothing is configured and no remote call ever settles. The other
  worlds are updates of it: in \<open>delivering_world\<close> Resend is configured and accepts
  the message, in \<open>failing_world\<close> every real provider is configured and fails, in
  \<open>hanging_world\<close> Resend is configured and its call never settles. In
  \<open>cascade_world\<close> the bucket \<open>profiles\<close> answers for the second image only and the
  bucket \<open>uploads\<close> for the first only.
\<close>

definition quiet_world :: world where
  "quiet_world =
     \<lparr> env = (\<lambda>_. None), config = (\<lambda>_. None), stamp = (\<lambda>_. ''1700000000000_k3j9x2m1q''),
       resend_send = Never, sendgrid_fetch = Never,
       smtp_verify = (\<lambda>_. Never), smtp_sendMail = (\<lambda>_. Never),
       smtp_only_sendEmail = Never, aws = None,
       supabase_upload = (\<lambda>_ _. Never), s3_upload = (\<lambda>_. Never),
       repo_save = (\<lambda>_. Never) \<rparr>"

definition resend_key_env :: "string \<Rightarrow> string option" where
  "resend_key_env k = (if k = ''RESEND_API_KEY'' then Some ''re_test_key'' else None)"

definition delivering_world :: world where
  "delivering_world =
     quiet_world \<lparr> env := resend_key_env,
                   resend_send := Resolves 180 \<lparr> reply_error = None \<rparr> \<rparr>"

definition providers_env :: "string \<Rightarrow> string option" where
  "providers_env k =
     (if k = ''RESEND_API_KEY'' then Some ''re_test_key''
      else if k = ''SENDGRID_API_KEY'' then Some ''SG.test''
      else if k = ''SENDGRID_FROM_EMAIL'' then Some ''noreply@example.org''
      else if k = ''SMTP_USER'' then Some ''mailer@example.org''
      else if k = ''SMTP_PASS'' then Some ''app-password''
      else None)"

definition failing_world :: world where
  "failing_world =
     quiet_world \<lparr> env := providers_env,
                   resend_send := Rejects 95 (ProviderFailure ''resend unavailable''),
                   sendgrid_fetch := Rejects 60 (ProviderFailure ''sendgrid unavailable''),
                   smtp_verify := (\<lambda>_. Rejects 15000 (ProviderFailure ''connection timeout'')),
                   smtp_only_sendEmail := Rejects 40 (ProviderFailure ''smtp blocked'') \<rparr>"

definition hanging_world :: world where
  "hanging_world = quiet_world \<lparr> env := resend_key_env \<rparr>"

definition png_image :: string where
  "png_image = ''data:image/png;base64,iVBORw0KGgo=''"

definition cascade_world :: world where
  "cascade_world =
     quiet_world
       \<lparr> supabase_upload :=
           (\<lambda>i bucket.
              if bucket = ''profiles''
              then (if i = 1 then Resolves 300 (Some ''https://cdn.example/profiles/b.png'')
                    else Never)
              else (if i = 0 then Resolves 250 (Some ''https://cdn.example/uploads/a.png'')
                    else Rejects 80 (ProviderFailure ''bucket not found''))) \<rparr>"

text \<open>
  In \<open>saving_world\<close> no upload ever settles and AWS is not configured, so every upload
  of the chain fails; the repository stores what it is given.
\<close>

definition saving_world :: world where
  "saving_world =
     quiet_world
       \<lparr> repo_save :=
           (\<lambda>entity. Resolves 12 \<lparr> s_referenceImages = Some (e_referenceImages entity),
                                    s_referenceimages = None \<rparr>) \<rparr>"

definition sample_dto :: create_dto where
  "sample_dto =
     \<lparr> referenceImages = Some [png_image], eventDate = ''2025-06-01'',
       endDate = ''2025-06-02'' \<rparr>"

section \<open>Basic facts about the combinators\<close>

lemma emit_pair [simp]: "emit evs (tr, r) = (evs @ tr, r)"
  by (simp add: emit_def)

lemma fst_emit [simp]: "fst (emit evs p) = evs @ fst p"
  by (simp add: emit_def)

lemma snd_emit [simp]: "snd (emit evs p) = snd p"
  by (simp add: emit_def)

lemma try_catch_pair [simp]:
  "try_catch (tr, Returned v) h = (tr, Returned v)"
  "try_catch (tr, Pending) h = (tr, Pending)"
  "try_catch (tr, Threw e) h = emit tr (h e)"
  by (simp_all add: try_catch_def)

lemma bind_proc_pair [simp]:
  "bind_proc (tr, Returned v) f = emit tr (f v)"
  "bind_proc (tr, Pending) f = (tr, Pending)"
  "bind_proc (tr, Threw e) f = (tr, Threw e)"
  by (simp_all add: bind_proc_def)

lemma await_promise [simp]:
  "await ev (Resolves t v) = ([ev], Returned v)"
  "await ev (Rejects t e) = ([ev], Threw e)"
  "await ev Never = ([ev], Pending)"
  by (simp_all add: await_def)

lemma rethrow_pair [simp]: "rethrow e = ([], Threw e)"
  by (simp add: rethrow_def)

section \<open>Facts about the combinators and the trace readers\<close>

lemma fst_bind_proc:
  "fst (bind_proc p f) = fst p @ (case snd p of Returned v \<Rightarrow> fst (f v) | _ \<Rightarrow> [])"
  by (simp add: bind_proc_def split: outcome.splits)

lemma snd_bind_proc:
  "snd (bind_proc p f) =
     (case snd p of Returned v \<Rightarrow> snd (f v) | Threw e \<Rightarrow> Threw e | Pending \<Rightarrow> Pending)"
  by (simp add: bind_proc_def split: outcome.splits)

lemma fst_try_catch_rethrow [simp]: "fst (try_catch p rethrow) = fst p"
  by (cases p, cases "snd p") simp_all

lemma snd_try_catch_rethrow [simp]: "snd (try_catch p rethrow) = snd p"
  by (cases p, cases "snd p") simp_all

lemma invoked_append [simp]: "invoked (xs @ ys) = invoked xs @ invoked ys"
  by (induction xs rule: invoked.induct) simp_all

lemma pauses_append [simp]: "pauses (xs @ ys) = pauses xs @ pauses ys"
  by (induction xs rule: pauses.induct) simp_all

lemma ids_append [simp]: "ids (xs @ ys) = ids xs @ ids ys"
  by (induction xs rule: ids.induct) simp_all

lemma invoked_concat: "invoked (concat xss) = concat (map invoked xss)"
  by (induction xss) simp_all

lemma pauses_concat: "pauses (concat xss) = concat (map pauses xss)"
  by (induction xss) simp_all

lemma concat_singletons: "concat (map (\<lambda>n. [n]) xs) = xs"
  by (induction xs) simp_all

section \<open>Facts about the email chain\<close>

lemma Resend_unconfigured:
  "resendClient svc = None \<Longrightarrow>
   ResendEmailService_sendEmail w svc to subject body = logEmailFallback w to subject body"
  by (simp add: ResendEmailService_sendEmail_def logEmailFallback_def Let_def)

lemma strategies_loop_trace:
  "fst (strategies_loop ss) =
     concat (map fst (takeWhile settled_without_success ss
                      @ take 1 (dropWhile settled_without_success ss)))"
  by (induction ss) (auto simp: settled_without_success_def split: outcome.splits)

lemma strategies_loop_result:
  "snd (strategies_loop ss) =
     (case dropWhile settled_without_success ss of [] \<Rightarrow> Returned False | s # _ \<Rightarrow> snd s)"
  by (induction ss) (auto simp: settled_without_success_def split: outcome.splits)

lemma strategies_loop_never_throws: "snd (strategies_loop ss) \<noteq> Threw e"
  by (induction ss) (auto split: outcome.splits)

lemma Resend_quiet [simp]:
  "invoked (fst (ResendEmailService_sendEmail w svc to subject body)) = []"
  "pauses (fst (ResendEmailService_sendEmail w svc to subject body)) = []"
  by (cases "resend_send w";
      simp add: ResendEmailService_sendEmail_def logEmailFallback_def Let_def)+

lemma gmail_loop_invoked [simp]: "invoked (fst (gmail_configs_loop w ports)) = []"
proof (induction ports)
  case Nil
  then show ?case by simp
next
  case (Cons port ports)
  then show ?case
    by (cases "smtp_verify w port"; cases "smtp_sendMail w port") simp_all
qed

lemma gmail_loop_pauses [simp]: "pauses (fst (gmail_configs_loop w ports)) = []"
proof (induction ports)
  case Nil
  then show ?case by simp
next
  case (Cons port ports)
  then show ?case
    by (cases "smtp_verify w port"; cases "smtp_sendMail w port") simp_all
qed

lemma tryResend_quiet:
  "invoked (fst (tryResend w svc to subject body)) = [''tryResend'']"
  "pauses (fst (tryResend w svc to subject body)) = []"
  by (simp_all add: tryResend_def)

lemma trySendGridAPI_quiet:
  "invoked (fst (trySendGridAPI w to subject body)) = [''trySendGridAPI'']"
  "pauses (fst (trySendGridAPI w to subject body)) = []"
proof -
  show "invoked (fst (trySendGridAPI w to subject body)) = [''trySendGridAPI'']"
  proof (cases "sendgrid_fetch w")
    case (Resolves t response)
    then show ?thesis
      by (cases "resp_text response") (simp_all add: trySendGridAPI_def Let_def)
  qed (simp_all add: trySendGridAPI_def Let_def)
  show "pauses (fst (trySendGridAPI w to subject body)) = []"
  proof (cases "sendgrid_fetch w")
    case (Resolves t response)
    then show ?thesis
      by (cases "resp_text response") (simp_all add: trySendGridAPI_def Let_def)
  qed (simp_all add: trySendGridAPI_def Let_def)
qed

lemma tryGmailSMTP_quiet:
  "invoked (fst (tryGmailSMTP w to subject body)) = [''tryGmailSMTP'']"
  "pauses (fst (tryGmailSMTP w to subject body)) = []"
  by (simp_all add: tryGmailSMTP_def Let_def del: gmail_configs_loop.simps)

lemma trySmtpOnly_quiet:
  "invoked (fst (trySmtpOnly w to subject body)) = [''trySmtpOnly'']"
  "pauses (fst (trySmtpOnly w to subject body)) = []"
  by (cases "smtp_only_sendEmail w"; simp add: trySmtpOnly_def)+

lemma loggers_quiet:
  "invoked (fst (tryRailwayDirect w to subject body)) = [''tryRailwayDirect'']"
  "invoked (fst (tryRailwayEmail w to subject body)) = [''tryRailwayEmail'']"
  "invoked (fst (tryWebhook w to subject body)) = [''tryWebhook'']"
  "invoked (fst (tryConsoleLog w to subject body)) = [''tryConsoleLog'']"
  "pauses (fst (tryRailwayDirect w to subject body)) = []"
  "pauses (fst (tryRailwayEmail w to subject body)) = []"
  "pauses (fst (tryWebhook w to subject body)) = []"
  "pauses (fst (tryConsoleLog w to subject body)) = []"
  by (simp_all add: tryRailwayDirect_def tryRailwayEmail_def tryWebhook_def tryConsoleLog_def
      RailwayDirectEmailService_sendEmail_def RailwayEmailService_sendEmail_def
      sendEmailViaWebhook_def Let_def)

lemma invoked_strategies:
  "map (\<lambda>s. invoked (fst s)) (strategies w svc to subject body) = map (\<lambda>n. [n]) strategy_order"
  by (simp add: strategies_def strategy_order_def tryResend_quiet trySendGridAPI_quiet
      tryGmailSMTP_quiet trySmtpOnly_quiet loggers_quiet)

lemma pauses_strategies:
  "list_all (\<lambda>s. pauses (fst s) = []) (strategies w svc to subject body)"
  by (simp add: strategies_def tryResend_quiet trySendGridAPI_quiet
      tryGmailSMTP_quiet trySmtpOnly_quiet loggers_quiet)

lemma run_prefix:
  "prefix (takeWhile P ss @ take 1 (dropWhile P ss)) ss"
  by (metis append_take_drop_id prefix_def takeWhile_dropWhile_id append.assoc)

lemma sendEmail_invoked_prefix:
  "prefix (invoked (fst (sendEmail w svc to subject body))) strategy_order"
proof -
  let ?ss = "strategies w svc to subject body"
  let ?run = "takeWhile settled_without_success ?ss @ take 1 (dropWhile settled_without_success ?ss)"
  have "prefix (map (\<lambda>s. invoked (fst s)) ?run) (map (\<lambda>n. [n]) strategy_order)"
    using invoked_strategies [of w svc to subject body] run_prefix [of settled_without_success ?ss]
    by (metis map_mono_prefix)
  then obtain zs where "map (\<lambda>n. [n]) strategy_order = map (\<lambda>s. invoked (fst s)) ?run @ zs"
    by (auto simp: prefix_def)
  then have "concat (map (\<lambda>n. [n]) strategy_order) =
      concat (map (\<lambda>s. invoked (fst s)) ?run) @ concat zs"
    by (metis concat_append)
  moreover have "concat (map (\<lambda>n. [n]) strategy_order) = strategy_order"
    by (rule concat_singletons)
  moreover have "invoked (fst (sendEmail w svc to subject body)) =
      concat (map (\<lambda>s. invoked (fst s)) ?run)"
    by (simp only: sendEmail_def strategies_loop_trace invoked_concat map_map comp_def)
  ultimately show ?thesis unfolding prefix_def by metis
qed

lemma sendEmail_trace:
  "fst (sendEmail w svc to subject body) =
     concat (map fst
       (takeWhile settled_without_success (strategies w svc to subject body)
        @ take 1 (dropWhile settled_without_success (strategies w svc to subject body))))"
  unfolding sendEmail_def by (rule strategies_loop_trace)

lemma sendEmail_result:
  "snd (sendEmail w svc to subject body) =
     (case dropWhile settled_without_success (strategies w svc to subject body) of
        [] \<Rightarrow> Returned False | s # _ \<Rightarrow> snd s)"
  unfolding sendEmail_def by (rule strategies_loop_result)

lemma sendEmail_invoked_take:
  "invoked (fst (sendEmail w svc to subject body)) =
     take (length (takeWhile settled_without_success (strategies w svc to subject body)
                   @ take 1 (dropWhile settled_without_success
                               (strategies w svc to subject body))))
       strategy_order"
proof -
  let ?ss = "strategies w svc to subject body"
  define run where
    "run = takeWhile settled_without_success ?ss @ take 1 (dropWhile settled_without_success ?ss)"
  define k where "k = length run"
  have "prefix run ?ss" unfolding run_def by (rule run_prefix)
  then have run: "run = take k ?ss"
    unfolding k_def by (metis append_eq_conv_conj prefix_def)
  have "invoked (fst (sendEmail w svc to subject body)) =
      concat (map (\<lambda>s. invoked (fst s)) run)"
    unfolding run_def by (simp only: sendEmail_trace invoked_concat map_map comp_def)
  also have "\<dots> = concat (map (\<lambda>s. invoked (fst s)) (take k ?ss))"
    by (simp only: run [symmetric])
  also have "\<dots> = concat (take k (map (\<lambda>n. [n]) strategy_order))"
    by (simp only: take_map [symmetric] invoked_strategies)
  also have "\<dots> = concat (map (\<lambda>n. [n]) (take k strategy_order))"
    by (simp only: take_map)
  also have "\<dots> = take k strategy_order"
    by (rule concat_singletons)
  finally show ?thesis unfolding k_def run_def .
qed

lemma sendEmail_no_pause: "pauses (fst (sendEmail w svc to subject body)) = []"
proof -
  let ?ss = "strategies w svc to subject body"
  let ?run = "takeWhile settled_without_success ?ss @ take 1 (dropWhile settled_without_success ?ss)"
  have "set ?run \<subseteq> set ?ss"
    using run_prefix [of settled_without_success ?ss] by (metis set_mono_prefix)
  then have "\<forall>s \<in> set ?run. pauses (fst s) = []"
    using pauses_strategies [of w svc to subject body] by (auto simp: list_all_iff)
  then have "concat (map (\<lambda>s. pauses (fst s)) ?run) = []"
    by simp
  moreover have "pauses (fst (sendEmail w svc to subject body)) =
      concat (map (\<lambda>s. pauses (fst s)) ?run)"
    by (simp only: sendEmail_def strategies_loop_trace pauses_concat map_map comp_def)
  ultimately show ?thesis by simp
qed

lemma loop_reaches_last:
  "list_all settled_without_success ss \<Longrightarrow>
   strategies_loop (ss @ [s]) = emit (concat (map fst ss)) (strategies_loop [s])"
proof (induction ss)
  case Nil
  then show ?case by (simp add: emit_def)
next
  case (Cons a ss)
  then show ?case
    by (cases "snd a") (auto simp add: settled_without_success_def emit_def)
qed

lemma Resend_outcome:
  "snd (ResendEmailService_sendEmail w svc to subject body) =
     (if resend_attempt_fails w svc then Returned True
      else if resend_send w = Never then Pending else Returned True)"
  by (cases "resend_send w")
     (auto simp add: ResendEmailService_sendEmail_def logEmailFallback_def Let_def
        resend_attempt_fails_def)

lemma Resend_trace_failed:
  "resend_attempt_fails w svc \<Longrightarrow>
   fst (ResendEmailService_sendEmail w svc to subject body) =
     (if \<not> truthy (js_or (env w ''RESEND_API_KEY'') (config w ''resend.apiKey''))
         \<or> resendClient svc = None
      then [] else [ResendSend])
     @ [NewId (''resend_fallback_'' @ stamp w ''RESEND_FALLBACK''),
        LogRecord ''RESEND_FALLBACK'' (Some (''resend_fallback_'' @ stamp w ''RESEND_FALLBACK''))]"
  by (cases "resend_send w")
     (auto simp add: ResendEmailService_sendEmail_def logEmailFallback_def Let_def
        resend_attempt_fails_def)

lemma Resend_trace_not_failed:
  "\<not> resend_attempt_fails w svc \<Longrightarrow>
   fst (ResendEmailService_sendEmail w svc to subject body) = [ResendSend]"
  by (cases "resend_send w")
     (auto simp add: ResendEmailService_sendEmail_def logEmailFallback_def Let_def
        resend_attempt_fails_def)

text \<open>
  The first strategy never lets the loop go on: it returns \<open>true\<close> or stays pending.
\<close>

lemma sendEmail_is_tryResend:
  "sendEmail w svc to subject body = tryResend w svc to subject body"
  by (simp add: sendEmail_def strategies_def tryResend_def Resend_outcome prod_eq_iff)

lemma ids_sendEmail:
  "ids (fst (sendEmail w svc to subject body)) =
     (if resend_attempt_fails w svc then [''resend_fallback_'' @ stamp w ''RESEND_FALLBACK'']
      else [])"
  by (simp add: sendEmail_is_tryResend tryResend_def Resend_trace_failed
      Resend_trace_not_failed)

lemma loop_true_iff:
  "snd (strategies_loop ss) = Returned True \<longleftrightarrow>
   (\<exists>pre s post. ss = pre @ s # post \<and> list_all settled_without_success pre
                  \<and> snd s = Returned True)"
proof
  assume t: "snd (strategies_loop ss) = Returned True"
  then obtain s post where d: "dropWhile settled_without_success ss = s # post"
    and s: "snd s = Returned True"
    by (cases "dropWhile settled_without_success ss") (simp_all add: strategies_loop_result)
  have "ss = takeWhile settled_without_success ss @ s # post"
    using d takeWhile_dropWhile_id [of settled_without_success ss] by simp
  moreover have "list_all settled_without_success (takeWhile settled_without_success ss)"
    by (auto simp add: list_all_iff dest: set_takeWhileD)
  ultimately show "\<exists>pre s post. ss = pre @ s # post \<and> list_all settled_without_success pre
      \<and> snd s = Returned True"
    using s by blast
next
  assume "\<exists>pre s post. ss = pre @ s # post \<and> list_all settled_without_success pre
      \<and> snd s = Returned True"
  then obtain pre s post where ss: "ss = pre @ s # post"
    and pre: "list_all settled_without_success pre" and s: "snd s = Returned True"
    by blast
  have "\<not> settled_without_success s"
    using s by (simp add: settled_without_success_def)
  then have "dropWhile settled_without_success ss = s # post"
    using pre by (simp add: ss dropWhile_append2 list_all_iff)
  then show "snd (strategies_loop ss) = Returned True"
    using s by (simp add: strategies_loop_result)
qed

section \<open>Facts about the upload of reference images\<close>

lemma uploadWithTimeout_not_Never: "uploadWithTimeout p ms \<noteq> Never"
  by (simp add: uploadWithTimeout_def split: promise.splits)

lemma buckets_step:
  "supabase_buckets_loop w i (bucket # buckets) =
     (if bucket_succeeds w i bucket
      then ([SupabaseUpload i bucket],
            Returned (url_or_empty (case uploadWithTimeout (supabase_upload w i bucket) 30000 of
                                      Resolves t u \<Rightarrow> u | _ \<Rightarrow> None), True))
      else emit [SupabaseUpload i bucket] (supabase_buckets_loop w i buckets))"
  using uploadWithTimeout_not_Never [of "supabase_upload w i bucket" 30000]
  by (cases "uploadWithTimeout (supabase_upload w i bucket) 30000")
     (simp_all add: bucket_succeeds_def)

declare supabase_buckets_loop.simps(2) [simp del]

lemma buckets_never_pending: "snd (supabase_buckets_loop w i bs) \<noteq> Pending"
  by (induction bs) (simp_all add: buckets_step)

lemma buckets_trace:
  "fst (supabase_buckets_loop w i bs) =
     map (SupabaseUpload i) (takeWhile (\<lambda>b. \<not> bucket_succeeds w i b) bs
                             @ take 1 (dropWhile (\<lambda>b. \<not> bucket_succeeds w i b) bs))"
  by (induction bs) (simp_all add: buckets_step)

lemma buckets_failed_url:
  "snd (supabase_buckets_loop w i bs) = Returned (u, False) \<Longrightarrow> u = []"
  by (induction bs) (simp_all add: buckets_step split: if_splits)

lemma buckets_returned:
  "\<exists>st. snd (supabase_buckets_loop w i bs) = Returned st"
  by (induction bs) (auto simp add: buckets_step)

lemma buckets_success_iff:
  "snd (supabase_buckets_loop w i bs) = Returned st \<Longrightarrow>
   snd st = (\<exists>b \<in> set bs. bucket_succeeds w i b)"
  by (induction bs) (auto simp add: buckets_step split: if_splits)

lemma fst_s3_fallback:
  "fst (s3_fallback w i st) = (if \<not> snd st \<and> hasAwsConfig w then [S3Upload i] else [])"
  by (cases "s3_upload w i") (simp_all add: s3_fallback_def Let_def)

lemma snd_s3_fallback:
  "snd (s3_fallback w i st) =
     (if \<not> snd st \<and> hasAwsConfig w
      then (case s3_upload w i of
              Resolves t response \<Rightarrow>
                Returned (url_or_empty response, url_or_empty response \<noteq> [] \<or> snd st)
            | Rejects t e \<Rightarrow> Returned st
            | Never \<Rightarrow> Pending)
      else Returned st)"
  by (cases "s3_upload w i") (auto simp add: s3_fallback_def Let_def)

lemma upload_image_trace:
  "fst (upload_image w i) =
     SupabaseUpload i ''profiles'' #
       (if bucket_succeeds w i ''profiles'' then []
        else SupabaseUpload i ''uploads'' #
          (if bucket_succeeds w i ''uploads'' \<or> env w ''NODE_ENV'' = Some ''local''
               \<or> \<not> hasAwsConfig w
           then [] else [S3Upload i]))"
proof -
  obtain st where st: "snd (supabase_buckets_loop w i [''profiles'', ''uploads'']) = Returned st"
    using buckets_returned by blast
  have ok: "snd st = (bucket_succeeds w i ''profiles'' \<or> bucket_succeeds w i ''uploads'')"
    using buckets_success_iff [OF st] by simp
  have tr: "fst (supabase_buckets_loop w i [''profiles'', ''uploads'']) =
      SupabaseUpload i ''profiles'' #
        (if bucket_succeeds w i ''profiles'' then [] else [SupabaseUpload i ''uploads''])"
    by (simp add: buckets_trace)
  show ?thesis
  proof (cases "env w ''NODE_ENV'' = Some ''local''")
    case True
    then show ?thesis by (simp add: upload_image_def tr)
  next
    case False
    have "fst (upload_image w i) =
        fst (supabase_buckets_loop w i [''profiles'', ''uploads'']) @ fst (s3_fallback w i st)"
      using False
      by (cases "snd (s3_fallback w i st)")
         (simp_all add: upload_image_def fst_bind_proc snd_bind_proc st)
    then show ?thesis
      using False by (simp add: tr fst_s3_fallback ok)
  qed
qed

lemma upload_image_never_throws: "snd (upload_image w i) \<noteq> Threw e"
proof -
  obtain st where st: "snd (supabase_buckets_loop w i [''profiles'', ''uploads'']) = Returned st"
    using buckets_returned by blast
  show ?thesis
    by (cases "s3_upload w i")
       (simp_all add: upload_image_def snd_bind_proc st snd_s3_fallback)
qed

lemma upload_image_not_pending:
  assumes "env w ''NODE_ENV'' = Some ''local'' \<or> \<not> hasAwsConfig w \<or> s3_upload w i \<noteq> Never"
  shows "snd (upload_image w i) \<noteq> Pending"
proof -
  obtain st where st: "snd (supabase_buckets_loop w i [''profiles'', ''uploads'']) = Returned st"
    using buckets_returned by blast
  show ?thesis
    using assms
    by (cases "s3_upload w i")
       (auto simp add: upload_image_def snd_bind_proc st snd_s3_fallback)
qed

lemma upload_image_failed_url:
  assumes "snd (upload_image w i) = Returned (u, False)"
  shows "u = []"
proof -
  obtain st where st: "snd (supabase_buckets_loop w i [''profiles'', ''uploads'']) = Returned st"
    using buckets_returned by blast
  show ?thesis
  proof (cases "env w ''NODE_ENV'' = Some ''local''")
    case True
    then show ?thesis
      using assms buckets_failed_url [of w i "[''profiles'', ''uploads'']" u]
      by (simp add: upload_image_def)
  next
    case False
    then show ?thesis
      using assms
      by (cases "s3_upload w i")
         (auto simp add: upload_image_def snd_bind_proc st snd_s3_fallback split: if_splits)
  qed
qed

lemma images_loop_step:
  "images_loop w n i (img # rest) acc =
     (if processable img
      then (case snd (upload_image w i) of
              Returned st \<Rightarrow>
                emit (fst (upload_image w i) @ pause_after i n)
                  (images_loop w n (Suc i) rest
                     (if keep_url (fst st) then acc @ [fst st] else acc))
            | Threw e \<Rightarrow>
                emit (fst (upload_image w i) @ pause_after i n)
                  (images_loop w n (Suc i) rest acc)
            | Pending \<Rightarrow> (fst (upload_image w i), Pending))
      else images_loop w n (Suc i) rest acc)"
  by (cases "upload_image w i"; cases "snd (upload_image w i)")
     (auto simp add: processable_def split: option.splits)

declare images_loop.simps(2) [simp del]

lemma images_loop_never_throws: "snd (images_loop w n i imgs acc) \<noteq> Threw e"
  by (induction imgs arbitrary: i acc)
     (simp_all add: images_loop_step upload_image_never_throws split: outcome.splits)

lemma images_loop_result:
  "snd (images_loop w n i imgs acc) = Returned urls \<Longrightarrow>
   urls = acc @ List.map_filter (\<lambda>(j, img). uploaded_url w j img) (enumerate i imgs)"
proof (induction imgs arbitrary: i acc)
  case Nil
  then show ?case by (simp add: List.map_filter_simps)
next
  case (Cons img rest)
  show ?case
  proof (cases "processable img")
    case False
    then show ?thesis
      using Cons by (simp add: images_loop_step List.map_filter_simps uploaded_url_def)
  next
    case True
    show ?thesis
    proof (cases "snd (upload_image w i)")
      case (Returned st)
      then show ?thesis
        using Cons.prems True
          Cons.IH [of "Suc i" "if keep_url (fst st) then acc @ [fst st] else acc"]
        by (simp add: images_loop_step List.map_filter_simps uploaded_url_def split: if_splits)
    next
      case (Threw e)
      then show ?thesis using upload_image_never_throws by blast
    next
      case Pending
      then show ?thesis using Cons.prems True by (simp add: images_loop_step)
    qed
  qed
qed

lemma images_loop_trace:
  "snd (images_loop w n i imgs acc) \<noteq> Pending \<Longrightarrow>
   fst (images_loop w n i imgs acc) =
     concat (map (\<lambda>(j, img). iteration_trace w n j img) (enumerate i imgs))"
proof (induction imgs arbitrary: i acc)
  case Nil
  then show ?case by simp
next
  case (Cons img rest)
  show ?case
  proof (cases "processable img")
    case False
    then show ?thesis
      using Cons by (simp add: images_loop_step iteration_trace_def)
  next
    case True
    show ?thesis
    proof (cases "snd (upload_image w i)")
      case (Returned st)
      then show ?thesis
        using Cons.prems True
          Cons.IH [of "Suc i" "if keep_url (fst st) then acc @ [fst st] else acc"]
        by (simp add: images_loop_step iteration_trace_def split: if_splits)
    next
      case (Threw e)
      then show ?thesis using upload_image_never_throws by blast
    next
      case Pending
      then show ?thesis using Cons.prems True by (simp add: images_loop_step)
    qed
  qed
qed

lemma images_loop_returns:
  "(\<And>j. snd (upload_image w j) \<noteq> Pending) \<Longrightarrow>
   \<exists>urls. snd (images_loop w n i imgs acc) = Returned urls"
proof (induction imgs arbitrary: i acc)
  case Nil
  then show ?case by simp
next
  case (Cons img rest)
  then show ?case
    by (cases "snd (upload_image w i)")
       (simp_all add: images_loop_step upload_image_never_throws)
qed

lemma keep_url_filter: "list_all keep_url urls \<Longrightarrow> filter keep_url urls = urls"
  by (induction urls) simp_all

lemma uploaded_url_kept: "uploaded_url w j img = Some u \<Longrightarrow> keep_url u"
  by (auto simp add: uploaded_url_def split: if_splits outcome.splits)

lemma map_filter_kept:
  "list_all keep_url (List.map_filter (\<lambda>(j, img). uploaded_url w j img) xs)"
proof (induction xs)
  case Nil
  then show ?case by (simp add: List.map_filter_simps)
next
  case (Cons x xs)
  obtain j img where x: "x = (j, img)" by (cases x)
  show ?case
    using Cons uploaded_url_kept [of w j img]
    by (cases "uploaded_url w j img") (simp_all add: List.map_filter_simps x)
qed

lemma uploadBase64Images_result:
  assumes "snd (uploadBase64Images w imgs) = Returned urls"
  shows "urls = List.map_filter (\<lambda>(j, img). uploaded_url w j img) (enumerate 0 imgs)"
proof -
  obtain us where us: "snd (images_loop w (length imgs) 0 imgs []) = Returned us"
    and urls: "urls = filter keep_url us"
    using assms
    by (cases "snd (images_loop w (length imgs) 0 imgs [])")
       (simp_all add: uploadBase64Images_def snd_bind_proc)
  have "us = List.map_filter (\<lambda>(j, img). uploaded_url w j img) (enumerate 0 imgs)"
    using images_loop_result [OF us] by simp
  then show ?thesis
    using urls keep_url_filter [OF map_filter_kept] by simp
qed

lemma uploadBase64Images_trace:
  "fst (uploadBase64Images w imgs) = fst (images_loop w (length imgs) 0 imgs [])"
  by (cases "snd (images_loop w (length imgs) 0 imgs [])")
     (simp_all add: uploadBase64Images_def fst_bind_proc)

lemma uploadBase64Images_pending:
  "snd (uploadBase64Images w imgs) = Pending \<longleftrightarrow>
   snd (images_loop w (length imgs) 0 imgs []) = Pending"
  by (cases "snd (images_loop w (length imgs) 0 imgs [])")
     (simp_all add: uploadBase64Images_def snd_bind_proc)

lemma length_map_filter_le: "length (List.map_filter f xs) \<le> length xs"
  by (induction xs) (simp_all add: List.map_filter_simps split: option.splits)

section \<open>Evaluation in the concrete worlds\<close>

lemma png_matches: "match_data_url png_image = Some (''png'', ''iVBORw0KGgo='')"
  by (simp add: match_data_url_def png_image_def line_terminator_def)

lemma png_processable: "processable png_image"
  by (simp add: processable_def png_matches) (simp add: png_image_def)

lemma keep_cdn_urls:
  "keep_url ''https://cdn.example/uploads/a.png''"
  "keep_url ''https://cdn.example/profiles/b.png''"
  by (simp_all add: keep_url_def trim_def is_space_def)

lemma cascade_first_image:
  "upload_image cascade_world 0 =
     ([SupabaseUpload 0 ''profiles'', SupabaseUpload 0 ''uploads''],
      Returned (''https://cdn.example/uploads/a.png'', True))"
  by (simp add: upload_image_def cascade_world_def quiet_world_def supabase_buckets_loop.simps
      uploadWithTimeout_def s3_fallback_def url_or_empty_def hasAwsConfig_def)

lemma cascade_second_image:
  "upload_image cascade_world (Suc 0) =
     ([SupabaseUpload (Suc 0) ''profiles''],
      Returned (''https://cdn.example/profiles/b.png'', True))"
  by (simp add: upload_image_def cascade_world_def quiet_world_def supabase_buckets_loop.simps
      uploadWithTimeout_def s3_fallback_def url_or_empty_def hasAwsConfig_def)

lemma cascade_third_image:
  "upload_image cascade_world (Suc (Suc 0)) =
     ([SupabaseUpload (Suc (Suc 0)) ''profiles'', SupabaseUpload (Suc (Suc 0)) ''uploads''],
      Returned ([], False))"
  by (simp add: upload_image_def cascade_world_def quiet_world_def supabase_buckets_loop.simps
      uploadWithTimeout_def s3_fallback_def url_or_empty_def hasAwsConfig_def)

lemma cascade_three_images:
  "uploadBase64Images cascade_world [png_image, png_image, png_image] =
     ([SupabaseUpload 0 ''profiles'', SupabaseUpload 0 ''uploads'', Pause 500,
       SupabaseUpload 1 ''profiles'', Pause 500,
       SupabaseUpload 2 ''profiles'', SupabaseUpload 2 ''uploads''],
      Returned [''https://cdn.example/uploads/a.png'', ''https://cdn.example/profiles/b.png''])"
  by (simp add: uploadBase64Images_def images_loop_step png_processable cascade_first_image
      cascade_second_image cascade_third_image pause_after_def keep_cdn_urls)
     (simp add: keep_url_def numeral_2_eq_2)

lemma cascade_two_images:
  "uploadBase64Images cascade_world [png_image, png_image] =
     ([SupabaseUpload 0 ''profiles'', SupabaseUpload 0 ''uploads'', Pause 500,
       SupabaseUpload 1 ''profiles''],
      Returned [''https://cdn.example/uploads/a.png'', ''https://cdn.example/profiles/b.png''])"
  by (simp add: uploadBase64Images_def images_loop_step png_processable cascade_first_image
      cascade_second_image pause_after_def keep_cdn_urls)

lemma uploadWithTimeout_bounded:
  "(case uploadWithTimeout p ms of
      Resolves t v \<Rightarrow> t \<le> ms | Rejects t e \<Rightarrow> t \<le> ms | Never \<Rightarrow> False)"
  by (cases p) (simp_all add: uploadWithTimeout_def)

lemma failing_world_sendEmail:
  "sendEmail failing_world (ResendEmailService_new failing_world) ''a@b.c'' ''Hi'' ''Hello'' =
     ([Invoke ''tryResend'', ResendSend, NewId ''resend_fallback_1700000000000_k3j9x2m1q'',
       LogRecord ''RESEND_FALLBACK'' (Some ''resend_fallback_1700000000000_k3j9x2m1q'')],
      Returned True)"
  by (simp add: sendEmail_is_tryResend tryResend_def ResendEmailService_sendEmail_def
      logEmailFallback_def ResendEmailService_new_def Let_def failing_world_def
      quiet_world_def js_or_def providers_env_def)

lemma delivering_world_sendEmail:
  "sendEmail delivering_world (ResendEmailService_new delivering_world)
     ''a@b.c'' ''Hi'' ''Hello'' =
     ([Invoke ''tryResend'', ResendSend], Returned True)"
  by (simp add: sendEmail_is_tryResend tryResend_def ResendEmailService_sendEmail_def
      logEmailFallback_def ResendEmailService_new_def Let_def delivering_world_def
      quiet_world_def js_or_def resend_key_env_def)

lemma quiet_world_sendEmail:
  "sendEmail quiet_world (ResendEmailService_new quiet_world) ''a@b.c'' ''Hi'' ''Hello'' =
     ([Invoke ''tryResend'', NewId ''resend_fallback_1700000000000_k3j9x2m1q'',
       LogRecord ''RESEND_FALLBACK'' (Some ''resend_fallback_1700000000000_k3j9x2m1q'')],
      Returned True)"
  by (simp add: sendEmail_is_tryResend tryResend_def ResendEmailService_sendEmail_def
      logEmailFallback_def ResendEmailService_new_def Let_def
      quiet_world_def js_or_def)

lemma hanging_world_sendEmail:
  "sendEmail hanging_world (ResendEmailService_new hanging_world) ''a@b.c'' ''Hi'' ''Hello'' =
     ([Invoke ''tryResend'', ResendSend], Pending)"
  by (simp add: sendEmail_is_tryResend tryResend_def ResendEmailService_sendEmail_def
      logEmailFallback_def ResendEmailService_new_def Let_def hanging_world_def
      quiet_world_def js_or_def resend_key_env_def)

lemma saving_world_upload:
  "uploadBase64Images saving_world [png_image] =
     ([SupabaseUpload 0 ''profiles'', SupabaseUpload 0 ''uploads''], Returned [])"
  by (simp add: uploadBase64Images_def images_loop_step png_processable upload_image_def
      buckets_step bucket_succeeds_def uploadWithTimeout_def s3_fallback_def hasAwsConfig_def
      pause_after_def keep_url_def saving_world_def quiet_world_def)

lemma sample_entity_saved:
  "repo_save saving_world
     \<lparr> e_userId = ''user-1'', e_referenceImages = [],
       e_eventDate = ''2025-06-01'', e_endDate = ''2025-06-02'',
       e_status = ''pending'', e_isDeleted = False \<rparr> =
   Resolves 12 \<lparr> s_referenceImages = Some [], s_referenceimages = None \<rparr>"
  by (simp add: saving_world_def quiet_world_def)

section \<open>The claims\<close>

text \<open>
  Claim C1, as amended. \<open>sendEmail\<close> never throws: its loop catches whatever a
  strategy throws, for any list of strategies. When the Resend attempt fails (no key or
  no client, a rejected call, or a reply with an error), whatever the other providers
  would do, \<open>sendEmail\<close> returns \<open>true\<close>. The \<open>true\<close> comes from the first
  strategy, whose service records the email through its own \<open>logEmailFallback\<close>; no
  later strategy is invoked and the console record of \<open>tryConsoleLog\<close> is not written.
  A chain whose strategies all settle without success and that ends in \<open>tryConsoleLog\<close>
  does return \<open>true\<close> from that last strategy, but in \<open>sendEmail\<close> the first strategy
  never settles without success.
\<close>

theorem failed_providers_return_true_from_resend_fallback:
  "snd (strategies_loop ss) \<noteq> Threw e
   \<and> snd (sendEmail w svc to subject body) \<noteq> Threw e
   \<and> (resend_attempt_fails w svc \<longrightarrow>
        snd (sendEmail w svc to subject body) = Returned True
      \<and> invoked (fst (sendEmail w svc to subject body)) = [''tryResend'']
      \<and> LogRecord ''RESEND_FALLBACK'' (Some (''resend_fallback_'' @ stamp w ''RESEND_FALLBACK''))
          \<in> set (fst (sendEmail w svc to subject body))
      \<and> LogRecord ''CONSOLE'' None \<notin> set (fst (sendEmail w svc to subject body)))
   \<and> (list_all settled_without_success ss \<longrightarrow>
        strategies_loop (ss @ [tryConsoleLog w to subject body]) =
          (concat (map fst ss) @ [Invoke ''tryConsoleLog'', LogRecord ''CONSOLE'' None],
           Returned True))
   \<and> \<not> settled_without_success (tryResend w svc to subject body)"
proof (intro conjI impI)
  show "snd (strategies_loop ss) \<noteq> Threw e"
    by (rule strategies_loop_never_throws)
  show "snd (sendEmail w svc to subject body) \<noteq> Threw e"
    unfolding sendEmail_def by (rule strategies_loop_never_throws)
  show "\<not> settled_without_success (tryResend w svc to subject body)"
    by (simp add: settled_without_success_def tryResend_def Resend_outcome)
next
  assume "list_all settled_without_success ss"
  then show "strategies_loop (ss @ [tryConsoleLog w to subject body]) =
      (concat (map fst ss) @ [Invoke ''tryConsoleLog'', LogRecord ''CONSOLE'' None],
       Returned True)"
    by (simp add: loop_reaches_last tryConsoleLog_def)
next
  assume f: "resend_attempt_fails w svc"
  show "snd (sendEmail w svc to subject body) = Returned True"
    using f by (simp add: sendEmail_is_tryResend tryResend_def Resend_outcome)
  show "invoked (fst (sendEmail w svc to subject body)) = [''tryResend'']"
    by (simp add: sendEmail_is_tryResend tryResend_quiet)
  show "LogRecord ''RESEND_FALLBACK'' (Some (''resend_fallback_'' @ stamp w ''RESEND_FALLBACK''))
          \<in> set (fst (sendEmail w svc to subject body))"
    using f by (simp add: sendEmail_is_tryResend tryResend_def Resend_trace_failed)
  show "LogRecord ''CONSOLE'' None \<notin> set (fst (sendEmail w svc to subject body))"
    using f by (simp add: sendEmail_is_tryResend tryResend_def Resend_trace_failed)
qed

theorem failed_providers_return_true_from_resend_fallback_witness:
  "resend_attempt_fails failing_world (ResendEmailService_new failing_world)
   \<and> list_all settled_without_success [([Invoke ''first''], Returned False)]
   \<and> snd (sendEmail failing_world (ResendEmailService_new failing_world)
            ''a@b.c'' ''Hi'' ''Hello'') = Returned True
   \<and> invoked (fst (sendEmail failing_world (ResendEmailService_new failing_world)
            ''a@b.c'' ''Hi'' ''Hello'')) = [''tryResend'']
   \<and> strategies_loop [([Invoke ''first''], Returned False),
                       tryConsoleLog failing_world ''a@b.c'' ''Hi'' ''Hello''] =
       ([Invoke ''first'', Invoke ''tryConsoleLog'', LogRecord ''CONSOLE'' None], Returned True)"
  using failed_providers_return_true_from_resend_fallback
    [of "[([Invoke ''first''], Returned False)]" "ProviderFailure []" failing_world
        "ResendEmailService_new failing_world" "''a@b.c''" "''Hi''" "''Hello''"]
  by (simp add: resend_attempt_fails_def failing_world_def quiet_world_def
      settled_without_success_def)

text \<open>
  In \<open>failing_world\<close> every real provider is configured and fails: the Resend call is
  rejected, and SendGrid, Gmail SMTP and the SMTP-only service would throw. The \<open>true\<close>
  that \<open>sendEmail\<close> returns is produced inside the first strategy; \<open>tryConsoleLog\<close>,
  the last strategy, is not invoked.
\<close>

theorem console_log_strategy_not_reached:
  "resend_attempt_fails failing_world (ResendEmailService_new failing_world)
   \<and> snd (trySendGridAPI failing_world ''a@b.c'' ''Hi'' ''Hello'') =
       Threw (ProviderFailure ''sendgrid unavailable'')
   \<and> snd (tryGmailSMTP failing_world ''a@b.c'' ''Hi'' ''Hello'') = Threw AllGmailConfigsFailed
   \<and> snd (trySmtpOnly failing_world ''a@b.c'' ''Hi'' ''Hello'') =
       Threw (ProviderFailure ''smtp blocked'')
   \<and> sendEmail failing_world (ResendEmailService_new failing_world) ''a@b.c'' ''Hi'' ''Hello'' =
       ([Invoke ''tryResend'', ResendSend, NewId ''resend_fallback_1700000000000_k3j9x2m1q'',
         LogRecord ''RESEND_FALLBACK'' (Some ''resend_fallback_1700000000000_k3j9x2m1q'')],
        Returned True)
   \<and> ''tryConsoleLog'' \<notin> set (invoked (fst (sendEmail failing_world
          (ResendEmailService_new failing_world) ''a@b.c'' ''Hi'' ''Hello'')))"
  by (simp add: failing_world_sendEmail)
     (simp add: resend_attempt_fails_def trySendGridAPI_def tryGmailSMTP_def trySmtpOnly_def
        failing_world_def quiet_world_def js_or_def providers_env_def)

text \<open>
  Claim C2. Adapters are attempted strictly in their configured order, one at a time,
  and the first success ends the chain. For the loop of \<open>sendEmail\<close> over any list of
  strategies: its trace is the traces of the strategies it ran, one after the other and in
  the order of the list, and the strategies it ran are the leading ones that settled
  without success followed by the first one that did not (a success or a call that never
  settles), so nothing after the first success is attempted and the result is that
  strategy's. \<open>sendEmail\<close> is this loop over its eight strategies, which stand
  in the order Resend, SendGrid, Gmail SMTP, SMTP-only, Railway direct, Railway, webhook,
  console: the strategies it invokes are exactly the first ones of that order, as many as
  the loop ran, its trace is their traces in that order and its result is the result of
  the one at which the loop stopped. For one
  image the upload attempts are the bucket \<open>profiles\<close>, then \<open>uploads\<close> unless
  \<open>profiles\<close> succeeded, then S3 unless a bucket succeeded (or the environment is
  local, or AWS is not configured). An attempt on a bucket that ran into its deadline
  counts as resolved: the next attempt starts after the timer has rejected the race.
\<close>

theorem attempts_in_priority_order:
  "fst (strategies_loop ss) =
     concat (map fst (takeWhile settled_without_success ss
                      @ take 1 (dropWhile settled_without_success ss)))
   \<and> snd (strategies_loop ss) =
       (case dropWhile settled_without_success ss of [] \<Rightarrow> Returned False | s # _ \<Rightarrow> snd s)
   \<and> map (\<lambda>s. invoked (fst s)) (strategies w svc to subject body) =
       map (\<lambda>n. [n]) strategy_order
   \<and> prefix (invoked (fst (sendEmail w svc to subject body))) strategy_order
   \<and> sendEmail w svc to subject body = strategies_loop (strategies w svc to subject body)
   \<and> fst (sendEmail w svc to subject body) =
       concat (map fst
         (takeWhile settled_without_success (strategies w svc to subject body)
          @ take 1 (dropWhile settled_without_success (strategies w svc to subject body))))
   \<and> snd (sendEmail w svc to subject body) =
       (case dropWhile settled_without_success (strategies w svc to subject body) of
          [] \<Rightarrow> Returned False | s # _ \<Rightarrow> snd s)
   \<and> invoked (fst (sendEmail w svc to subject body)) =
       take (length (takeWhile settled_without_success (strategies w svc to subject body)
                     @ take 1 (dropWhile settled_without_success
                                 (strategies w svc to subject body))))
         strategy_order
   \<and> fst (upload_image w i) =
       SupabaseUpload i ''profiles'' #
         (if bucket_succeeds w i ''profiles'' then []
          else SupabaseUpload i ''uploads'' #
            (if bucket_succeeds w i ''uploads'' \<or> env w ''NODE_ENV'' = Some ''local''
                 \<or> \<not> hasAwsConfig w
             then [] else [S3Upload i]))"
  by (intro conjI strategies_loop_trace strategies_loop_result invoked_strategies
      sendEmail_invoked_prefix upload_image_trace sendEmail_def sendEmail_trace
      sendEmail_result sendEmail_invoked_take)

theorem attempts_in_priority_order_witness:
  "strategies_loop
     [([Invoke ''first''], Threw (ProviderFailure ''down'')),
      ([Invoke ''second''], Returned False),
      ([Invoke ''third'', SmtpOnlySend], Returned True),
      ([Invoke ''fourth''], Returned True)] =
     ([Invoke ''first'', Invoke ''second'', Invoke ''third'', SmtpOnlySend], Returned True)
   \<and> fst (upload_image cascade_world 0) =
       [SupabaseUpload 0 ''profiles'', SupabaseUpload 0 ''uploads'']
   \<and> sendEmail failing_world (ResendEmailService_new failing_world)
         ''a@b.c'' ''Hi'' ''Hello'' =
       strategies_loop (strategies failing_world (ResendEmailService_new failing_world)
         ''a@b.c'' ''Hi'' ''Hello'')
   \<and> takeWhile settled_without_success
         (strategies failing_world (ResendEmailService_new failing_world)
            ''a@b.c'' ''Hi'' ''Hello'') = []
   \<and> sendEmail failing_world (ResendEmailService_new failing_world)
         ''a@b.c'' ''Hi'' ''Hello'' =
       ([Invoke ''tryResend'', ResendSend, NewId ''resend_fallback_1700000000000_k3j9x2m1q'',
         LogRecord ''RESEND_FALLBACK'' (Some ''resend_fallback_1700000000000_k3j9x2m1q'')],
        Returned True)
   \<and> invoked (fst (sendEmail failing_world (ResendEmailService_new failing_world)
         ''a@b.c'' ''Hi'' ''Hello'')) = take 1 strategy_order"
proof -
  have first: "\<not> settled_without_success
      (tryResend failing_world (ResendEmailService_new failing_world)
         ''a@b.c'' ''Hi'' ''Hello'')"
    by (simp add: settled_without_success_def tryResend_def Resend_outcome)
  have run: "takeWhile settled_without_success
      (strategies failing_world (ResendEmailService_new failing_world)
         ''a@b.c'' ''Hi'' ''Hello'') = []"
    "dropWhile settled_without_success
      (strategies failing_world (ResendEmailService_new failing_world)
         ''a@b.c'' ''Hi'' ''Hello'') =
     strategies failing_world (ResendEmailService_new failing_world)
         ''a@b.c'' ''Hi'' ''Hello''"
    using first by (simp_all add: strategies_def)
  have len: "length (strategies failing_world (ResendEmailService_new failing_world)
         ''a@b.c'' ''Hi'' ''Hello'') = 8"
    by (simp add: strategies_def)
  note loop = attempts_in_priority_order
      [of "[([Invoke ''first''], Threw (ProviderFailure ''down'')),
            ([Invoke ''second''], Returned False),
            ([Invoke ''third'', SmtpOnlySend], Returned True),
            ([Invoke ''fourth''], Returned True)]"
          cascade_world "ResendEmailService_new cascade_world" "''a@b.c''" "''Hi''" "''Hello''" 0]
  note chain = attempts_in_priority_order
      [of "[]" failing_world "ResendEmailService_new failing_world"
          "''a@b.c''" "''Hi''" "''Hello''" 0]
  have a1: "strategies_loop
     [([Invoke ''first''], Threw (ProviderFailure ''down'')),
      ([Invoke ''second''], Returned False),
      ([Invoke ''third'', SmtpOnlySend], Returned True),
      ([Invoke ''fourth''], Returned True)] =
     ([Invoke ''first'', Invoke ''second'', Invoke ''third'', SmtpOnlySend], Returned True)"
    using loop by (simp add: settled_without_success_def prod_eq_iff)
  have "fst (upload_image cascade_world 0) =
       SupabaseUpload 0 ''profiles'' #
         (if bucket_succeeds cascade_world 0 ''profiles'' then []
          else SupabaseUpload 0 ''uploads'' #
            (if bucket_succeeds cascade_world 0 ''uploads''
                 \<or> env cascade_world ''NODE_ENV'' = Some ''local''
                 \<or> \<not> hasAwsConfig cascade_world
             then [] else [S3Upload 0]))"
    using loop by (elim conjE)
  then have a2: "fst (upload_image cascade_world 0) =
       [SupabaseUpload 0 ''profiles'', SupabaseUpload 0 ''uploads'']"
    by (simp add: bucket_succeeds_def uploadWithTimeout_def cascade_world_def quiet_world_def
        hasAwsConfig_def)
  have b1: "sendEmail failing_world (ResendEmailService_new failing_world)
         ''a@b.c'' ''Hi'' ''Hello'' =
       strategies_loop (strategies failing_world (ResendEmailService_new failing_world)
         ''a@b.c'' ''Hi'' ''Hello'')"
    using chain by (elim conjE)
  have "invoked (fst (sendEmail failing_world (ResendEmailService_new failing_world)
         ''a@b.c'' ''Hi'' ''Hello'')) =
       take (length (takeWhile settled_without_success
                       (strategies failing_world (ResendEmailService_new failing_world)
                          ''a@b.c'' ''Hi'' ''Hello'')
                     @ take 1 (dropWhile settled_without_success
                                 (strategies failing_world (ResendEmailService_new failing_world)
                                    ''a@b.c'' ''Hi'' ''Hello''))))
         strategy_order"
    using chain by (elim conjE)
  then have b2: "invoked (fst (sendEmail failing_world (ResendEmailService_new failing_world)
         ''a@b.c'' ''Hi'' ''Hello'')) = take 1 strategy_order"
    by (simp add: run len)
  show ?thesis
    using a1 a2 b1 b2 run(1) failing_world_sendEmail by blast
qed

text \<open>
  Claim C3, as amended. The caller of \<open>sendEmail\<close> sees one boolean, not a status with
  three values. When \<open>sendEmail\<close> returns it returns \<open>true\<close>, and it returns whenever
  the Resend call settles, whether the provider delivered or only the fallback logged.
  The loop returns \<open>true\<close> exactly when some strategy, at whatever position, returned
  \<open>true\<close> after all strategies before it had settled without success; the value does
  not tell which one.
\<close>

theorem caller_sees_one_boolean:
  "(snd (sendEmail w svc to subject body) = Returned True
      \<or> snd (sendEmail w svc to subject body) = Pending)
   \<and> (resend_send w \<noteq> Never \<longrightarrow> snd (sendEmail w svc to subject body) = Returned True)
   \<and> (snd (strategies_loop ss) = Returned True \<longleftrightarrow>
        (\<exists>pre s post. ss = pre @ s # post \<and> list_all settled_without_success pre
                       \<and> snd s = Returned True))"
  by (simp add: sendEmail_is_tryResend tryResend_def Resend_outcome loop_true_iff)

theorem caller_sees_one_boolean_witness:
  "resend_send delivering_world \<noteq> Never
   \<and> snd (sendEmail delivering_world (ResendEmailService_new delivering_world)
            ''a@b.c'' ''Hi'' ''Hello'') = Returned True
   \<and> snd (strategies_loop
            [([Invoke ''first''], Threw (ProviderFailure ''down'')),
             ([Invoke ''second'', SmtpOnlySend], Returned True)]) = Returned True"
  using caller_sees_one_boolean
    [of delivering_world "ResendEmailService_new delivering_world"
        "''a@b.c''" "''Hi''" "''Hello''"
        "[([Invoke ''first''], Threw (ProviderFailure ''down'')),
          ([Invoke ''second'', SmtpOnlySend], Returned True)]"]
  by (simp add: delivering_world_def quiet_world_def)

text \<open>
  Three runs to which the specification gives three different final statuses: Resend
  delivers, Resend is not configured and its fallback logs, and a chain whose second
  strategy succeeds after the first threw. The caller receives \<open>true\<close> from each.
\<close>

theorem final_status_not_visible:
  "snd (sendEmail delivering_world (ResendEmailService_new delivering_world)
          ''a@b.c'' ''Hi'' ''Hello'') = Returned True
   \<and> snd (sendEmail quiet_world (ResendEmailService_new quiet_world)
          ''a@b.c'' ''Hi'' ''Hello'') = Returned True
   \<and> snd (strategies_loop
            [([Invoke ''first''], Threw (ProviderFailure ''down'')),
             ([Invoke ''second'', SmtpOnlySend], Returned True)]) = Returned True
   \<and> spec_final_status (fst (sendEmail delivering_world
          (ResendEmailService_new delivering_world) ''a@b.c'' ''Hi'' ''Hello'')) = Delivered
   \<and> spec_final_status (fst (sendEmail quiet_world (ResendEmailService_new quiet_world)
          ''a@b.c'' ''Hi'' ''Hello'')) = LoggedOnly
   \<and> spec_final_status (fst (strategies_loop
            [([Invoke ''first''], Threw (ProviderFailure ''down'')),
             ([Invoke ''second'', SmtpOnlySend], Returned True)])) = DeliveredViaFallback"
  by (simp add: delivering_world_sendEmail quiet_world_sendEmail spec_final_status_def)

text \<open>
  Claim C4, as amended. Each upload to a Supabase bucket is raced against a timer by
  \<open>uploadWithTimeout\<close>: the guarded promise always settles, no later than the
  deadline. An upload that never resolves is rejected
  with the timeout error after 30000 ms, and the loop over the buckets goes on to the
  next bucket; the loop is never left pending. (The strategies of the email chain are
  awaited without such a guard, as the counterexample shows.)
\<close>

theorem supabase_attempts_are_bounded:
  "uploadWithTimeout p ms \<noteq> Never
   \<and> (case uploadWithTimeout p ms of
         Resolves t v \<Rightarrow> t \<le> ms | Rejects t e \<Rightarrow> t \<le> ms | Never \<Rightarrow> False)
   \<and> (supabase_upload w i bucket = Never \<longrightarrow>
        uploadWithTimeout (supabase_upload w i bucket) 30000
          = Rejects 30000 (UploadTimeout 30000)
        \<and> supabase_buckets_loop w i (bucket # buckets)
          = emit [SupabaseUpload i bucket] (supabase_buckets_loop w i buckets))
   \<and> snd (supabase_buckets_loop w i buckets) \<noteq> Pending"
  by (simp add: uploadWithTimeout_not_Never uploadWithTimeout_bounded buckets_never_pending
      buckets_step bucket_succeeds_def)
     (simp add: uploadWithTimeout_def)

theorem supabase_attempts_are_bounded_witness:
  "supabase_upload cascade_world 0 ''profiles'' = Never
   \<and> uploadWithTimeout (supabase_upload cascade_world 0 ''profiles'') 30000
       = Rejects 30000 (UploadTimeout 30000)
   \<and> supabase_buckets_loop cascade_world 0 [''profiles'', ''uploads''] =
       ([SupabaseUpload 0 ''profiles'', SupabaseUpload 0 ''uploads''],
        Returned (''https://cdn.example/uploads/a.png'', True))"
  using supabase_attempts_are_bounded
    [of "supabase_upload cascade_world 0 ''profiles''" 30000 cascade_world 0
        "''profiles''" "[''uploads'']"]
  by (simp add: cascade_world_def quiet_world_def buckets_step bucket_succeeds_def
      uploadWithTimeout_def url_or_empty_def)

text \<open>
  In \<open>hanging_world\<close> Resend is configured and its call never settles: \<open>sendEmail\<close>
  stays pending in its first strategy and no other strategy is invoked.
\<close>

theorem email_strategy_without_deadline:
  "sendEmail hanging_world (ResendEmailService_new hanging_world) ''a@b.c'' ''Hi'' ''Hello'' =
     ([Invoke ''tryResend'', ResendSend], Pending)"
  by (rule hanging_world_sendEmail)

text \<open>
  Claim C5, as amended. \<open>tryGmailSMTP\<close> without SMTP user or password and
  \<open>trySendGridAPI\<close> without key or sender address throw a not-configured error before
  any network call; the loop of \<open>sendEmail\<close> catches what a strategy throws and goes
  on with the next strategy. \<open>ResendEmailService.sendEmail\<close> without a key or client
  does not fail: it is \<open>logEmailFallback\<close> and returns \<open>true\<close>, a success that ends
  the chain at \<open>tryResend\<close>.
\<close>

theorem missing_configuration_outcomes:
  "(\<not> truthy (js_or (env w ''SMTP_USER'') (config w ''email.SMTP_USER''))
      \<or> \<not> truthy (js_or (env w ''SMTP_PASS'') (config w ''email.SMTP_PASS'')) \<longrightarrow>
      tryGmailSMTP w to subject body = ([Invoke ''tryGmailSMTP''], Threw GmailNotConfigured))
   \<and> (\<not> truthy (js_or (env w ''SENDGRID_API_KEY'') (config w ''sendGrid.apiKey''))
      \<or> \<not> truthy (js_or (env w ''SENDGRID_FROM_EMAIL'') (config w ''sendGrid.fromEmail'')) \<longrightarrow>
      trySendGridAPI w to subject body =
        ([Invoke ''trySendGridAPI''], Threw SendGridNotConfigured))
   \<and> (snd s = Threw e \<longrightarrow> strategies_loop (s # ss) = emit (fst s) (strategies_loop ss))
   \<and> (\<not> truthy (js_or (env w ''RESEND_API_KEY'') (config w ''resend.apiKey''))
      \<or> resendClient svc = None \<longrightarrow>
      ResendEmailService_sendEmail w svc to subject body = logEmailFallback w to subject body
      \<and> snd (ResendEmailService_sendEmail w svc to subject body) = Returned True
      \<and> strategies_loop (tryResend w svc to subject body # ss) = tryResend w svc to subject body)"
  by (auto simp add: tryGmailSMTP_def trySendGridAPI_def Let_def
      ResendEmailService_sendEmail_def logEmailFallback_def tryResend_def)

theorem missing_configuration_outcomes_witness:
  "\<not> truthy (js_or (env quiet_world ''SMTP_USER'') (config quiet_world ''email.SMTP_USER''))
   \<and> \<not> truthy (js_or (env quiet_world ''SENDGRID_API_KEY'')
                   (config quiet_world ''sendGrid.apiKey''))
   \<and> resendClient (ResendEmailService_new quiet_world) = None
   \<and> tryGmailSMTP quiet_world ''a@b.c'' ''Hi'' ''Hello'' =
     ([Invoke ''tryGmailSMTP''], Threw GmailNotConfigured)
   \<and> trySendGridAPI quiet_world ''a@b.c'' ''Hi'' ''Hello'' =
     ([Invoke ''trySendGridAPI''], Threw SendGridNotConfigured)
   \<and> strategies_loop [tryGmailSMTP quiet_world ''a@b.c'' ''Hi'' ''Hello'',
                       tryConsoleLog quiet_world ''a@b.c'' ''Hi'' ''Hello''] =
     ([Invoke ''tryGmailSMTP'', Invoke ''tryConsoleLog'', LogRecord ''CONSOLE'' None],
      Returned True)
   \<and> snd (ResendEmailService_sendEmail quiet_world (ResendEmailService_new quiet_world)
            ''a@b.c'' ''Hi'' ''Hello'') = Returned True"
  using missing_configuration_outcomes
    [of quiet_world "''a@b.c''" "''Hi''" "''Hello''"
        "tryGmailSMTP quiet_world ''a@b.c'' ''Hi'' ''Hello''" GmailNotConfigured
        "[tryConsoleLog quiet_world ''a@b.c'' ''Hi'' ''Hello'']"
        "ResendEmailService_new quiet_world"]
  by (simp add: quiet_world_def js_or_def tryConsoleLog_def ResendEmailService_new_def
      tryGmailSMTP_def trySendGridAPI_def ResendEmailService_sendEmail_def
      logEmailFallback_def Let_def)

text \<open>
  In \<open>quiet_world\<close> no Resend key is configured. The attempt of the Resend adapter is
  a success, not a failure, and the chain does not advance past \<open>tryResend\<close>.
\<close>

theorem resend_without_key_succeeds:
  "resendClient (ResendEmailService_new quiet_world) = None
   \<and> snd (ResendEmailService_sendEmail quiet_world (ResendEmailService_new quiet_world)
            ''a@b.c'' ''Hi'' ''Hello'') = Returned True
   \<and> invoked (fst (sendEmail quiet_world (ResendEmailService_new quiet_world)
            ''a@b.c'' ''Hi'' ''Hello'')) = [''tryResend'']"
  by (simp add: quiet_world_sendEmail)
     (simp add: ResendEmailService_sendEmail_def logEmailFallback_def
        ResendEmailService_new_def Let_def quiet_world_def js_or_def)

text \<open>
  Claim C6. Without an API key the constructor leaves \<open>resendClient\<close> undefined.
  When the Resend client was not constructed, the method
  \<open>ResendEmailService.sendEmail\<close> is its logging fallback and returns \<open>true\<close> for every
  input; \<open>RobustEmailService.sendEmail\<close> then returns \<open>true\<close> from its first strategy:
  \<open>tryResend\<close> is the only strategy invoked, and the trace holds nothing but the
  fallback's identifier and log record, so no later provider is attempted.
\<close>

theorem resend_unconfigured_short_circuits:
  assumes "resendClient svc = None"
  shows "(truthy (js_or (env w ''RESEND_API_KEY'') (config w ''resend.apiKey''))
          \<or> resendClient (ResendEmailService_new w) = None)
       \<and> ResendEmailService_sendEmail w svc to subject body = logEmailFallback w to subject body
       \<and> snd (ResendEmailService_sendEmail w svc to subject body) = Returned True
       \<and> snd (sendEmail w svc to subject body) = Returned True
       \<and> invoked (fst (sendEmail w svc to subject body)) = [''tryResend'']
       \<and> fst (sendEmail w svc to subject body) =
           [Invoke ''tryResend'',
            NewId (''resend_fallback_'' @ stamp w ''RESEND_FALLBACK''),
            LogRecord ''RESEND_FALLBACK''
              (Some (''resend_fallback_'' @ stamp w ''RESEND_FALLBACK''))]"
  using assms
  by (simp add: sendEmail_def strategies_def tryResend_def Resend_unconfigured
      logEmailFallback_def ResendEmailService_new_def Let_def)

theorem resend_unconfigured_short_circuits_witness:
  "resendClient (ResendEmailService_new quiet_world) = None
   \<and> sendEmail quiet_world (ResendEmailService_new quiet_world) ''a@b.c'' ''Hi'' ''Hello'' =
       ([Invoke ''tryResend'', NewId ''resend_fallback_1700000000000_k3j9x2m1q'',
         LogRecord ''RESEND_FALLBACK'' (Some ''resend_fallback_1700000000000_k3j9x2m1q'')],
        Returned True)"
  using resend_unconfigured_short_circuits
    [of "ResendEmailService_new quiet_world" quiet_world "''a@b.c''" "''Hi''" "''Hello''"]
  by (simp add: ResendEmailService_new_def quiet_world_def js_or_def prod_eq_iff)

text \<open>
  Claim C7. The list \<open>uploadBase64Images\<close> returns holds, in the order of the input
  images, the URL obtained for each image that yielded one: it is the list of the
  per-image results with the images that gave none left out, so it is never longer than
  the input and is not padded. Every element is a non-empty string, also after trimming.
  An image whose upload failed contributes nothing. The method never throws, and it
  returns whenever no S3 upload is left unsettled.
\<close>

theorem uploaded_urls_keep_input_order:
  "(snd (uploadBase64Images w imgs) = Returned urls \<longrightarrow>
      urls = List.map_filter (\<lambda>(j, img). uploaded_url w j img) (enumerate 0 imgs)
      \<and> list_all (\<lambda>url. url \<noteq> [] \<and> trim url \<noteq> []) urls
      \<and> length urls \<le> length imgs)
   \<and> (snd (upload_image w j) = Returned (u, False) \<longrightarrow> uploaded_url w j img = None)
   \<and> snd (uploadBase64Images w imgs) \<noteq> Threw e
   \<and> ((\<forall>k. env w ''NODE_ENV'' = Some ''local'' \<or> \<not> hasAwsConfig w \<or> s3_upload w k \<noteq> Never)
        \<longrightarrow> (\<exists>urls'. snd (uploadBase64Images w imgs) = Returned urls'))"
proof (intro conjI impI)
  assume r: "snd (uploadBase64Images w imgs) = Returned urls"
  show eq: "urls = List.map_filter (\<lambda>(j, img). uploaded_url w j img) (enumerate 0 imgs)"
    by (rule uploadBase64Images_result [OF r])
  have "list_all keep_url urls"
    unfolding eq by (rule map_filter_kept)
  then show "list_all (\<lambda>url. url \<noteq> [] \<and> trim url \<noteq> []) urls"
    by (simp add: keep_url_def list_all_iff)
  show "length urls \<le> length imgs"
    unfolding eq using length_map_filter_le [of _ "enumerate 0 imgs"] by simp
next
  assume "snd (upload_image w j) = Returned (u, False)"
  then show "uploaded_url w j img = None"
    using upload_image_failed_url [of w j u] by (simp add: uploaded_url_def keep_url_def)
next
  show "snd (uploadBase64Images w imgs) \<noteq> Threw e"
    using images_loop_never_throws [of w "length imgs" 0 imgs "[]" e]
    by (cases "snd (images_loop w (length imgs) 0 imgs [])")
       (simp_all add: uploadBase64Images_def snd_bind_proc)
next
  assume "\<forall>k. env w ''NODE_ENV'' = Some ''local'' \<or> \<not> hasAwsConfig w \<or> s3_upload w k \<noteq> Never"
  then have "\<And>k. snd (upload_image w k) \<noteq> Pending"
    using upload_image_not_pending by blast
  then obtain us where "snd (images_loop w (length imgs) 0 imgs []) = Returned us"
    using images_loop_returns by blast
  then show "\<exists>urls'. snd (uploadBase64Images w imgs) = Returned urls'"
    by (simp add: uploadBase64Images_def snd_bind_proc)
qed

theorem uploaded_urls_keep_input_order_witness:
  "snd (uploadBase64Images cascade_world [png_image, png_image, png_image]) =
     Returned [''https://cdn.example/uploads/a.png'', ''https://cdn.example/profiles/b.png'']
   \<and> [''https://cdn.example/uploads/a.png'', ''https://cdn.example/profiles/b.png''] =
       List.map_filter (\<lambda>(j, img). uploaded_url cascade_world j img)
         (enumerate 0 [png_image, png_image, png_image])
   \<and> snd (upload_image cascade_world 2) = Returned ([], False)
   \<and> uploaded_url cascade_world 2 png_image = None
   \<and> \<not> hasAwsConfig cascade_world"
  using uploaded_urls_keep_input_order
    [of cascade_world "[png_image, png_image, png_image]"
        "[''https://cdn.example/uploads/a.png'', ''https://cdn.example/profiles/b.png'']"
        2 "[]" png_image]
    cascade_three_images cascade_third_image
  by (simp add: numeral_2_eq_2 hasAwsConfig_def cascade_world_def quiet_world_def)

text \<open>
  Claim C8, as amended. The 500 ms pause stands between images, not between attempts:
  when the upload returns, its trace is, image by image in input order, the upload
  attempts of a processed image followed by one pause of 500 ms unless the image is the
  last entry of the request, and nothing for a skipped entry. The attempts of one image
  have no pause among them. The trace of the email chain holds no pause.
\<close>

theorem pause_follows_each_processed_image:
  "(snd (uploadBase64Images w imgs) \<noteq> Pending \<longrightarrow>
      fst (uploadBase64Images w imgs) =
        concat (map (\<lambda>(j, img).
                       if processable img
                       then fst (upload_image w j)
                            @ (if j + 1 < length imgs then [Pause 500] else [])
                       else [])
                  (enumerate 0 imgs)))
   \<and> pauses (fst (upload_image w j)) = []
   \<and> list_all is_attempt (fst (upload_image w j))
   \<and> pauses (fst (sendEmail w svc to subject body)) = []"
proof (intro conjI impI)
  assume "snd (uploadBase64Images w imgs) \<noteq> Pending"
  then have "snd (images_loop w (length imgs) 0 imgs []) \<noteq> Pending"
    by (simp add: uploadBase64Images_pending)
  then have "fst (uploadBase64Images w imgs) =
      concat (map (\<lambda>(j, img). iteration_trace w (length imgs) j img) (enumerate 0 imgs))"
    by (simp add: uploadBase64Images_trace images_loop_trace)
  then show "fst (uploadBase64Images w imgs) =
      concat (map (\<lambda>(j, img).
                     if processable img
                     then fst (upload_image w j)
                          @ (if j + 1 < length imgs then [Pause 500] else [])
                     else [])
                (enumerate 0 imgs))"
    unfolding iteration_trace_def pause_after_def by simp
next
  show "pauses (fst (upload_image w j)) = []"
    by (simp add: upload_image_trace)
next
  show "list_all is_attempt (fst (upload_image w j))"
    by (simp add: upload_image_trace)
next
  show "pauses (fst (sendEmail w svc to subject body)) = []"
    by (rule sendEmail_no_pause)
qed

theorem pause_follows_each_processed_image_witness:
  "snd (uploadBase64Images cascade_world [png_image, png_image, png_image]) \<noteq> Pending
   \<and> fst (uploadBase64Images cascade_world [png_image, png_image, png_image]) =
       [SupabaseUpload 0 ''profiles'', SupabaseUpload 0 ''uploads'', Pause 500,
        SupabaseUpload 1 ''profiles'', Pause 500,
        SupabaseUpload 2 ''profiles'', SupabaseUpload 2 ''uploads'']
   \<and> pauses (fst (upload_image cascade_world 0)) = []"
  using pause_follows_each_processed_image
    [of cascade_world "[png_image, png_image, png_image]" 0
        "ResendEmailService_new cascade_world" "''a@b.c''" "''Hi''" "''Hello''"]
    cascade_three_images
  by simp

theorem pause_between_attempts_counterexample:
  "fst (uploadBase64Images cascade_world [png_image, png_image]) =
     [SupabaseUpload 0 ''profiles'', SupabaseUpload 0 ''uploads'', Pause 500,
      SupabaseUpload 1 ''profiles'']
   \<and> \<not> spec_pause_between_attempts
         (fst (uploadBase64Images cascade_world [png_image, png_image]))"
  by (simp add: cascade_two_images)

text \<open>
  Claim C9, as amended. There is no identifier of the request. Each logging adapter
  builds an identifier of its own when it runs, from its own prefix
  (\<open>resend_fallback_\<close>, \<open>railway_direct_\<close>, \<open>railway_email_\<close>, \<open>email_\<close>), so the
  identifiers of different adapters differ whatever the clock and the random part are;
  \<open>tryConsoleLog\<close> builds none, and one call of \<open>sendEmail\<close> builds the identifier of
  the Resend fallback when the Resend attempt fails and none otherwise.
\<close>

theorem identifiers_are_per_adapter:
  "ids (fst (logEmailFallback w to subject body)) =
     [''resend_fallback_'' @ stamp w ''RESEND_FALLBACK'']
   \<and> ids (fst (RailwayDirectEmailService_sendEmail w to subject body)) =
     [''railway_direct_'' @ stamp w ''RAILWAY_DIRECT'']
   \<and> ids (fst (RailwayEmailService_sendEmail w to subject body)) =
     [''railway_email_'' @ stamp w ''RAILWAY_WEBHOOK'']
   \<and> ids (fst (sendEmailViaWebhook w to subject body)) = [''email_'' @ stamp w ''WEBHOOK'']
   \<and> distinct
       [''resend_fallback_'' @ stamp w ''RESEND_FALLBACK'',
        ''railway_direct_'' @ stamp w ''RAILWAY_DIRECT'',
        ''railway_email_'' @ stamp w ''RAILWAY_WEBHOOK'',
        ''email_'' @ stamp w ''WEBHOOK'']
   \<and> ids (fst (tryConsoleLog w to subject body)) = []
   \<and> ids (fst (sendEmail w svc to subject body)) =
       (if resend_attempt_fails w svc
        then [''resend_fallback_'' @ stamp w ''RESEND_FALLBACK''] else [])"
  by (simp add: logEmailFallback_def RailwayDirectEmailService_sendEmail_def
      RailwayEmailService_sendEmail_def sendEmailViaWebhook_def tryConsoleLog_def
      ids_sendEmail Let_def)

theorem identifiers_are_per_adapter_witness:
  "ids (fst (sendEmail quiet_world (ResendEmailService_new quiet_world)
          ''a@b.c'' ''Hi'' ''Hello'')) = [''resend_fallback_1700000000000_k3j9x2m1q'']
   \<and> ids (fst (sendEmailViaWebhook quiet_world ''a@b.c'' ''Hi'' ''Hello'')) =
       [''email_1700000000000_k3j9x2m1q'']"
  using identifiers_are_per_adapter
    [of quiet_world "''a@b.c''" "''Hi''" "''Hello''" "ResendEmailService_new quiet_world"]
  by (simp add: resend_attempt_fails_def quiet_world_def js_or_def)

text \<open>
  A request that Resend delivers has no identifier at all, and for one and the same
  request the webhook adapter and the Railway adapter build different identifiers.
\<close>

theorem no_request_correlation_id:
  "ids (fst (sendEmail delivering_world (ResendEmailService_new delivering_world)
          ''a@b.c'' ''Hi'' ''Hello'')) = []
   \<and> ids (fst (sendEmailViaWebhook quiet_world ''a@b.c'' ''Hi'' ''Hello'')) \<noteq>
       ids (fst (RailwayEmailService_sendEmail quiet_world ''a@b.c'' ''Hi'' ''Hello''))"
  by (simp add: delivering_world_sendEmail sendEmailViaWebhook_def
      RailwayEmailService_sendEmail_def Let_def)

text \<open>
  Claim C10. For a request with reference images, when the upload throws (or every
  upload of the chain failed and it returned no URL), \<open>create\<close> goes on to the
  repository: right after the events of the upload it saves the entity with an empty
  \<open>referenceImages\<close> array, and what \<open>create\<close> then yields depends on the repository
  alone.
\<close>

theorem create_saves_when_upload_fails:
  assumes "referenceImages dto = Some images" and "images \<noteq> []"
    and "snd upload = Threw e \<or> snd upload = Returned []"
  shows "fst (create_after_upload w dto userId upload) =
           fst upload @
           [RepoSave \<lparr> e_userId = userId, e_referenceImages = [],
                       e_eventDate = eventDate dto, e_endDate = endDate dto,
                       e_status = ''pending'', e_isDeleted = False \<rparr>]
       \<and> snd (create_after_upload w dto userId upload) =
           (case repo_save w \<lparr> e_userId = userId, e_referenceImages = [],
                                e_eventDate = eventDate dto, e_endDate = endDate dto,
                                e_status = ''pending'', e_isDeleted = False \<rparr> of
              Resolves t savedEntity \<Rightarrow>
                Returned \<lparr> r_referenceImages = savedReferenceImages savedEntity [],
                           r_saved = savedEntity \<rparr>
            | Rejects t err \<Rightarrow> Threw (CreateFailed err)
            | Never \<Rightarrow> Pending)
       \<and> create w dto userId = create_after_upload w dto userId (uploadBase64Images w images)"
  using assms
  by (cases upload;
      cases "repo_save w \<lparr> e_userId = userId, e_referenceImages = [],
                            e_eventDate = eventDate dto, e_endDate = endDate dto,
                            e_status = ''pending'', e_isDeleted = False \<rparr>")
     (auto simp add: create_after_upload_def create_def Let_def)

theorem create_saves_when_upload_fails_witness:
  "referenceImages sample_dto = Some [png_image]
   \<and> snd (uploadBase64Images saving_world [png_image]) = Returned []
   \<and> create saving_world sample_dto ''user-1'' =
       ([SupabaseUpload 0 ''profiles'', SupabaseUpload 0 ''uploads'',
         RepoSave \<lparr> e_userId = ''user-1'', e_referenceImages = [],
                    e_eventDate = ''2025-06-01'', e_endDate = ''2025-06-02'',
                    e_status = ''pending'', e_isDeleted = False \<rparr>],
        Returned \<lparr> r_referenceImages = [],
                   r_saved = \<lparr> s_referenceImages = Some [], s_referenceimages = None \<rparr> \<rparr>)
   \<and> fst (create_after_upload saving_world sample_dto ''user-1''
             ([], Threw (ProviderFailure ''storage unavailable''))) =
       [RepoSave \<lparr> e_userId = ''user-1'', e_referenceImages = [],
                   e_eventDate = ''2025-06-01'', e_endDate = ''2025-06-02'',
                   e_status = ''pending'', e_isDeleted = False \<rparr>]"
proof -
  have dto: "referenceImages sample_dto = Some [png_image]"
    "eventDate sample_dto = ''2025-06-01''" "endDate sample_dto = ''2025-06-02''"
    by (simp_all add: sample_dto_def)
  have up: "snd (uploadBase64Images saving_world [png_image]) = Returned []"
    by (simp add: saving_world_upload)
  have returned:
    "snd (uploadBase64Images saving_world [png_image]) = Threw (ProviderFailure [])
     \<or> snd (uploadBase64Images saving_world [png_image]) = Returned []"
    using up by simp
  have thrown:
    "snd ([] :: event list, Threw (ProviderFailure ''storage unavailable'') :: string list outcome)
       = Threw (ProviderFailure ''storage unavailable'')
     \<or> snd ([] :: event list, Threw (ProviderFailure ''storage unavailable'') :: string list outcome)
       = Returned []"
    by simp
  show ?thesis
    using create_saves_when_upload_fails [OF dto(1) _ returned, of saving_world "''user-1''"]
      create_saves_when_upload_fails [OF dto(1) _ thrown, of saving_world "''user-1''"]
    by (simp add: dto up saving_world_upload sample_entity_saved savedReferenceImages_def
        prod_eq_iff)
qed

end
